theory Spec2Isabelle
  imports Main "HOL-Library.Sublist"
begin

section \<open>Python values and exceptions\<close>

text \<open>
  The values that travel through the harness: JSON documents, payload dictionaries,
  command output and the tuples the helpers return. A dictionary is an association list
  read with \<open>map_of\<close>; its keys are strings, as every dictionary of the sources has.
\<close>

datatype pyval =
    PNone
  | PBool bool
  | PInt int
  | PStr string
  | PBytes string
  | PList "pyval list"
  | PTuple "pyval list"
  | PDict "(string \<times> pyval) list"

text \<open>The error codes of \<open>commons.errorcodes\<close> that the sources name.\<close>

datatype errcode = CSM_REST_AUTHENTICATION_ERROR | CSM_REST_VERIFICATION_FAILED

text \<open>
  An exception is its class and its \<open>args\<close> tuple. \<open>KeyboardInterrupt\<close> and
  \<open>SystemExit\<close> derive from \<open>BaseException\<close> only; every other class here derives from
  \<open>Exception\<close>. \<open>CTException\<close> carries the error code and the message it was built from.
  The message texts of the interpreter's own exceptions are those of CPython 3.7; the
  handlers of the sources read no more of an exception than its first argument.
\<close>

datatype exc_class =
    CTException errcode pyval
  | KeyError
  | IndexError
  | TypeError
  | AttributeError
  | ValueError
  | UnboundLocalError
  | FileNotFoundError
  | KeyboardInterrupt
  | SystemExit
  | OtherException string

datatype exn = Exn (cls: exc_class) (args: "pyval list")

fun is_Exception :: "exc_class \<Rightarrow> bool" where
  "is_Exception KeyboardInterrupt = False"
| "is_Exception SystemExit = False"
| "is_Exception _ = True"

fun is_CTException :: "exn \<Rightarrow> errcode \<Rightarrow> bool" where
  "is_CTException (Exn (CTException c m) a) code = (c = code)"
| "is_CTException _ code = False"

subsection \<open>Strings\<close>

text \<open>\<open>needle in haystack\<close> on two \<open>str\<close> values: the needle occurs as a contiguous run.\<close>

fun str_in :: "string \<Rightarrow> string \<Rightarrow> bool" where
  "str_in p [] = (p = [])"
| "str_in p (c # cs) = (prefix p (c # cs) \<or> str_in p cs)"

text \<open>
  \<open>s.split(sep)\<close> for a separator of one character: the pieces between the separators,
  never an empty list.
\<close>

fun py_split :: "char \<Rightarrow> string \<Rightarrow> string list" where
  "py_split sep [] = [[]]"
| "py_split sep (c # cs) =
     (if c = sep then [] # py_split sep cs
      else (case py_split sep cs of [] \<Rightarrow> [[c]] | piece # pieces \<Rightarrow> (c # piece) # pieces))"

text \<open>
  The characters \<open>str.isspace\<close> accepts among the first 256 code points, and
  \<open>s.strip()\<close>, \<open>s.rstrip(chars)\<close> built on them.
\<close>

definition py_isspace :: "char \<Rightarrow> bool" where
  "py_isspace c =
     (let n = (of_char c :: nat)
      in (9 \<le> n \<and> n \<le> 13) \<or> (28 \<le> n \<and> n \<le> 32) \<or> n = 133 \<or> n = 160)"

definition py_strip :: "string \<Rightarrow> string" where
  "py_strip s = rev (dropWhile py_isspace (rev (dropWhile py_isspace s)))"

definition py_rstrip :: "string \<Rightarrow> string \<Rightarrow> string" where
  "py_rstrip chars s = rev (dropWhile (\<lambda>c. c \<in> set chars) (rev s))"

text \<open>A name between apostrophes, as the interpreter's messages quote it.\<close>

definition quoted :: "string \<Rightarrow> string" where
  "quoted s = [CHR 0x27] @ s @ [CHR 0x27]"

text \<open>
  \<open>int(s)\<close> on a \<open>str\<close>: surrounding whitespace is dropped, one sign is allowed, and
  the digits may be grouped by single underscores. Anything else is a \<open>ValueError\<close>.
\<close>

definition digit_of :: "char \<Rightarrow> nat option" where
  "digit_of c =
     (let n = (of_char c :: nat) in if 48 \<le> n \<and> n \<le> 57 then Some (n - 48) else None)"

fun parse_digits :: "string \<Rightarrow> nat \<Rightarrow> bool \<Rightarrow> nat option" where
  "parse_digits [] acc after_digit = (if after_digit then Some acc else None)"
| "parse_digits (c # cs) acc after_digit =
     (if c = CHR ''_''
      then (if after_digit \<and> cs \<noteq> [] then parse_digits cs acc False else None)
      else (case digit_of c of
              None \<Rightarrow> None
            | Some d \<Rightarrow> parse_digits cs (10 * acc + d) True))"

definition py_int :: "string \<Rightarrow> exn + int" where
  "py_int s =
     (let t = py_strip s;
          parsed =
            (case t of
               [] \<Rightarrow> None
             | c # cs \<Rightarrow>
                 if c = CHR ''-'' then map_option (\<lambda>n. - int n) (parse_digits cs 0 False)
                 else if c = CHR ''+'' then map_option int (parse_digits cs 0 False)
                 else map_option int (parse_digits t 0 False))
      in case parsed of
           None \<Rightarrow> Inl (Exn ValueError [PStr (''invalid literal for int() with base 10: '' @ quoted s)])
         | Some n \<Rightarrow> Inr n)"

subsection \<open>Operations on values\<close>

definition type_name :: "pyval \<Rightarrow> string" where
  "type_name v =
     (case v of
        PNone \<Rightarrow> ''NoneType'' | PBool _ \<Rightarrow> ''bool'' | PInt _ \<Rightarrow> ''int'' | PStr _ \<Rightarrow> ''str''
      | PBytes _ \<Rightarrow> ''bytes'' | PList _ \<Rightarrow> ''list'' | PTuple _ \<Rightarrow> ''tuple''
      | PDict _ \<Rightarrow> ''dict'')"

text \<open>The keys of a dictionary, each once, in the order of their first binding.\<close>

definition dict_keys :: "(string \<times> pyval) list \<Rightarrow> string list" where
  "dict_keys d = rev (remdups (rev (map fst d)))"

text \<open>\<open>for x in v\<close>: the elements \<open>v\<close> yields, or the \<open>TypeError\<close> of a value that yields none.\<close>

definition py_iter :: "pyval \<Rightarrow> exn + pyval list" where
  "py_iter v =
     (case v of
        PList xs \<Rightarrow> Inr xs
      | PTuple xs \<Rightarrow> Inr xs
      | PStr s \<Rightarrow> Inr (map (\<lambda>c. PStr [c]) s)
      | PBytes b \<Rightarrow> Inr (map (\<lambda>c. PInt (int (of_char c :: nat))) b)
      | PDict d \<Rightarrow> Inr (map PStr (dict_keys d))
      | _ \<Rightarrow> Inl (Exn TypeError [PStr (quoted (type_name v) @ '' object is not iterable'')]))"

text \<open>\<open>key in v\<close> for a \<open>str\<close> key.\<close>

definition py_in :: "string \<Rightarrow> pyval \<Rightarrow> exn + bool" where
  "py_in key v =
     (case v of
        PStr s \<Rightarrow> Inr (str_in key s)
      | PList xs \<Rightarrow> Inr (PStr key \<in> set xs)
      | PTuple xs \<Rightarrow> Inr (PStr key \<in> set xs)
      | PDict d \<Rightarrow> Inr (key \<in> set (map fst d))
      | PBytes b \<Rightarrow>
          Inl (Exn TypeError [PStr (''a bytes-like object is required, not '' @ quoted ''str'')])
      | _ \<Rightarrow> Inl (Exn TypeError
                 [PStr (''argument of type '' @ quoted (type_name v) @ '' is not iterable'')]))"

text \<open>\<open>v[key]\<close> for a \<open>str\<close> key: only a dictionary holding the key answers.\<close>

definition py_getitem :: "pyval \<Rightarrow> string \<Rightarrow> exn + pyval" where
  "py_getitem v key =
     (case v of
        PDict d \<Rightarrow> (case map_of d key of None \<Rightarrow> Inl (Exn KeyError [PStr key]) | Some x \<Rightarrow> Inr x)
      | PStr s \<Rightarrow> Inl (Exn TypeError [PStr ''string indices must be integers''])
      | PBytes s \<Rightarrow> Inl (Exn TypeError [PStr ''byte indices must be integers or slices, not str''])
      | PList xs \<Rightarrow> Inl (Exn TypeError [PStr ''list indices must be integers or slices, not str''])
      | PTuple xs \<Rightarrow> Inl (Exn TypeError [PStr ''tuple indices must be integers or slices, not str''])
      | _ \<Rightarrow> Inl (Exn TypeError [PStr (quoted (type_name v) @ '' object is not subscriptable'')]))"

text \<open>\<open>len(v)\<close>.\<close>

definition py_len :: "pyval \<Rightarrow> exn + nat" where
  "py_len v =
     (case v of
        PStr s \<Rightarrow> Inr (length s)
      | PBytes s \<Rightarrow> Inr (length s)
      | PList xs \<Rightarrow> Inr (length xs)
      | PTuple xs \<Rightarrow> Inr (length xs)
      | PDict d \<Rightarrow> Inr (length (dict_keys d))
      | _ \<Rightarrow> Inl (Exn TypeError
                 [PStr (''object of type '' @ quoted (type_name v) @ '' has no len()'')]))"

text \<open>\<open>[k for k in xs if key in k]\<close>: the first element that cannot be searched raises.\<close>

fun select_containing :: "string \<Rightarrow> pyval list \<Rightarrow> exn + pyval list" where
  "select_containing key [] = Inr []"
| "select_containing key (k # ks) =
     (case py_in key k of
        Inl e \<Rightarrow> Inl e
      | Inr b \<Rightarrow>
          (case select_containing key ks of
             Inl e \<Rightarrow> Inl e
           | Inr rest \<Rightarrow> Inr (if b then k # rest else rest)))"

text \<open>\<open>v.split(sep)\<close>: a method of \<open>str\<close>; \<open>bytes\<close> refuses a \<open>str\<close> separator.\<close>

definition py_split_method :: "pyval \<Rightarrow> char \<Rightarrow> exn + string list" where
  "py_split_method v sep =
     (case v of
        PStr s \<Rightarrow> Inr (py_split sep s)
      | PBytes b \<Rightarrow>
          Inl (Exn TypeError [PStr (''a bytes-like object is required, not '' @ quoted ''str'')])
      | _ \<Rightarrow> Inl (Exn AttributeError
                 [PStr (quoted (type_name v) @ '' object has no attribute '' @ quoted ''split'')]))"

section \<open>The remote-operations library (ras_core_lib.py)\<close>

text \<open>
  How \<open>execute_cmd\<close> is asked to read the command's output: with no option, with
  \<open>read_nbytes=BYTES_TO_READ\<close>, with \<open>read_nbytes=ONE_BYTE_TO_READ\<close>, or with
  \<open>read_lines=True\<close>.
\<close>

datatype read_opt = ReadDefault | ReadNbytes | ReadOneByte | ReadLines

text \<open>
  What the library does to the outside world, in order: commands sent to the node,
  service operations, sleeps, remote file transfers and reads of the local scratch file.
\<close>

datatype event =
    Exec string read_opt
  | RestartPcs string
  | Sleep nat
  | ServiceStatus string
  | ReadFile string string
  | CopyS3File string
  | OpenRead

text \<open>
  The world the library runs in: the trace of events so far and the content of the local
  file \<open>temp_file\<close> in the working directory (\<open>None\<close> when it does not exist).
\<close>

record ras_world =
  trace :: "event list"
  temp_file :: "string option"

text \<open>The entries of \<open>RAS_VAL["ras_sspl_alert"]\<close> that \<open>alert_validation\<close> reads.\<close>

record ras_sspl_alert =
  sspl_resource_id :: string
  sleep_val :: nat
  sspl_service :: string
  rabitmq_service :: string
  screen_log :: string
  alert_log_file :: string
  temp_txt_file :: string
  extracted_alert_file :: string

text \<open>
  The command templates of \<open>commons.commands\<close> and \<open>commons.constants\<close> (not part of
  the sources): a template with \<open>n\<close> placeholders is a function of \<open>n\<close> strings.
\<close>

record commands =
  EMPTY_FILE_CMD :: "string \<Rightarrow> string"
  COPY_FILE_CMD :: "string \<Rightarrow> string \<Rightarrow> string"
  INSTALL_SCREEN_CMD :: string
  SCREEN_CMD :: "string \<Rightarrow> string"
  UPDATE_STAT_FILE_CMD :: "string \<Rightarrow> string"
  SERVICE_STATUS_PATH :: string
  FILE_MODE_CHANGE_CMD :: "string \<Rightarrow> string"
  GET_CLUSTER_ID_CMD :: string
  ENCRYPT_PASSWORD_CMD :: "string \<Rightarrow> string \<Rightarrow> string"
  CONSUL_PATH :: string
  MDADM_CMD :: "string \<Rightarrow> string"
  SEL_INFO_CMD :: string
  IPMI_SDR_LIST_CMD :: string
  EXTRACT_LOG_CMD :: "string \<Rightarrow> string \<Rightarrow> string \<Rightarrow> string"

text \<open>
  The node and the services behind the library. Each answer may depend on everything done
  so far. \<open>execute_cmd\<close> and \<open>get_s3server_service_status\<close> answer with a status flag
  and the raw output; \<open>copy_s3server_file\<close> says what the local copy holds afterwards
  (\<open>None\<close> when no file was written).
\<close>

record ras_env =
  RAS_VAL :: ras_sspl_alert
  common_commands :: commands
  node_execute_cmd :: "event list \<Rightarrow> string \<Rightarrow> read_opt \<Rightarrow> bool \<times> pyval"
  s3_service_status :: "event list \<Rightarrow> string \<Rightarrow> bool \<times> pyval"
  s3_copy_file :: "event list \<Rightarrow> string \<Rightarrow> string option"

definition log_event :: "event \<Rightarrow> ras_world \<Rightarrow> ras_world" where
  "log_event ev w = w\<lparr>trace := trace w @ [ev]\<rparr>"

definition execute_cmd ::
  "ras_env \<Rightarrow> string \<Rightarrow> read_opt \<Rightarrow> ras_world \<Rightarrow> (bool \<times> pyval) \<times> ras_world" where
  "execute_cmd env cmd opt w =
     (node_execute_cmd env (trace w) cmd opt, log_event (Exec cmd opt) w)"

definition get_s3server_service_status ::
  "ras_env \<Rightarrow> string \<Rightarrow> ras_world \<Rightarrow> (bool \<times> pyval) \<times> ras_world" where
  "get_s3server_service_status env service w =
     (s3_service_status env (trace w) service, log_event (ServiceStatus service) w)"

definition copy_s3server_file :: "ras_env \<Rightarrow> string \<Rightarrow> ras_world \<Rightarrow> ras_world" where
  "copy_s3server_file env file_path w =
     (log_event (CopyS3File file_path) w)\<lparr>temp_file := s3_copy_file env (trace w) file_path\<rparr>"

text \<open>A \<open>(flag, value)\<close> tuple as the helpers return it.\<close>

definition tuple2 :: "bool \<times> pyval \<Rightarrow> pyval" where
  "tuple2 r = PTuple [PBool (fst r), snd r]"

subsection \<open>Helpers that run one command\<close>

definition truncate_file :: "ras_env \<Rightarrow> string \<Rightarrow> ras_world \<Rightarrow> pyval \<times> ras_world" where
  "truncate_file env file_path w =
     (let reset_file_cmd = EMPTY_FILE_CMD (common_commands env) file_path;
          (res, w1) = execute_cmd env reset_file_cmd ReadNbytes w
      in (tuple2 res, w1))"

definition cp_file :: "ras_env \<Rightarrow> string \<Rightarrow> string \<Rightarrow> ras_world \<Rightarrow> pyval \<times> ras_world" where
  "cp_file env path backup_path w =
     (let cmd = COPY_FILE_CMD (common_commands env) path backup_path;
          (resp, w1) = execute_cmd env cmd ReadNbytes w
      in (tuple2 resp, w1))"

definition install_screen_on_machine :: "ras_env \<Rightarrow> ras_world \<Rightarrow> pyval \<times> ras_world" where
  "install_screen_on_machine env w =
     (let cmd = INSTALL_SCREEN_CMD (common_commands env);
          (response, w1) = execute_cmd env cmd ReadNbytes w
      in (tuple2 response, w1))"

text \<open>
  \<open>run_cmd_on_screen\<close> first asks the package database for \<open>screen\<close>; when that
  command fails it installs the package, and in either case goes on to run the command
  inside a screen session.
\<close>

definition run_cmd_on_screen :: "ras_env \<Rightarrow> string \<Rightarrow> ras_world \<Rightarrow> pyval \<times> ras_world" where
  "run_cmd_on_screen env cmd w =
     (let (found, w1) = execute_cmd env ''rpm  -qa | grep screen'' ReadDefault w;
          w2 = (if \<not> fst found then snd (install_screen_on_machine env w1) else w1);
          w3 = log_event (Sleep 5) w2;
          screen_cmd = SCREEN_CMD (common_commands env) cmd;
          (response, w4) = execute_cmd env screen_cmd ReadNbytes w3
      in (tuple2 response, w4))"

definition check_status_file :: "ras_env \<Rightarrow> ras_world \<Rightarrow> pyval \<times> ras_world" where
  "check_status_file env w =
     (let stat_cmd = UPDATE_STAT_FILE_CMD (common_commands env)
                       (SERVICE_STATUS_PATH (common_commands env));
          (response, w1) = execute_cmd env stat_cmd ReadNbytes w
      in (tuple2 response, w1))"

definition change_file_mode :: "ras_env \<Rightarrow> string \<Rightarrow> ras_world \<Rightarrow> pyval \<times> ras_world" where
  "change_file_mode env path w =
     (let cmd = FILE_MODE_CHANGE_CMD (common_commands env) path;
          (res, w1) = execute_cmd env cmd ReadNbytes w
      in (tuple2 res, w1))"

definition get_cluster_id :: "ras_env \<Rightarrow> ras_world \<Rightarrow> pyval \<times> ras_world" where
  "get_cluster_id env w =
     (let cmd = GET_CLUSTER_ID_CMD (common_commands env);
          (cluster_id, w1) = execute_cmd env cmd ReadNbytes w
      in (tuple2 cluster_id, w1))"

definition encrypt_pwd :: "ras_env \<Rightarrow> string \<Rightarrow> string \<Rightarrow> ras_world \<Rightarrow> pyval \<times> ras_world" where
  "encrypt_pwd env password cluster_id w =
     (let cmd = ENCRYPT_PASSWORD_CMD (common_commands env) password cluster_id;
          (res, w1) = execute_cmd env cmd ReadNbytes w
      in (tuple2 res, w1))"

definition kv_put ::
  "ras_env \<Rightarrow> string \<Rightarrow> string \<Rightarrow> string \<Rightarrow> ras_world \<Rightarrow> pyval \<times> ras_world" where
  "kv_put env field val kv_path w =
     (let put_cmd = CONSUL_PATH (common_commands env) @ '' kv put '' @ kv_path @ ''/'' @ field
                      @ '' '' @ val;
          (resp, w1) = execute_cmd env put_cmd ReadOneByte w
      in (tuple2 resp, w1))"

definition kv_get :: "ras_env \<Rightarrow> string \<Rightarrow> string \<Rightarrow> ras_world \<Rightarrow> pyval \<times> ras_world" where
  "kv_get env field kv_path w =
     (let get_cmd = CONSUL_PATH (common_commands env) @ '' kv get '' @ kv_path @ ''/'' @ field;
          (response, w1) = execute_cmd env get_cmd ReadNbytes w
      in (tuple2 response, w1))"

text \<open>\<open>" ".join(args)\<close> on a list of strings.\<close>

fun join_space :: "string list \<Rightarrow> string" where
  "join_space [] = []"
| "join_space [a] = a"
| "join_space (a # b # rest) = a @ '' '' @ join_space (b # rest)"

definition run_mdadm_cmd :: "ras_env \<Rightarrow> string list \<Rightarrow> ras_world \<Rightarrow> pyval \<times> ras_world" where
  "run_mdadm_cmd env arg_list w =
     (let arguments = join_space arg_list;
          mdadm_cmd = MDADM_CMD (common_commands env) arguments;
          (output, w1) = execute_cmd env mdadm_cmd ReadNbytes w
      in (tuple2 output, w1))"

definition generate_log_err_alert :: "ras_env \<Rightarrow> string \<Rightarrow> ras_world \<Rightarrow> pyval \<times> ras_world" where
  "generate_log_err_alert env logger_alert_cmd w =
     (let (resp, w1) = execute_cmd env logger_alert_cmd ReadDefault w
      in (tuple2 resp, w1))"

subsection \<open>cal_sel_space and get_fan_name\<close>

text \<open>\<open>xs[0]\<close> on a list.\<close>

definition first_of :: "'a list \<Rightarrow> exn + 'a" where
  "first_of xs =
     (case xs of [] \<Rightarrow> Inl (Exn IndexError [PStr ''list index out of range'']) | x # _ \<Rightarrow> Inr x)"

definition cal_sel_space :: "ras_env \<Rightarrow> ras_world \<Rightarrow> (exn + pyval) \<times> ras_world" where
  "cal_sel_space env w =
     (let sel_info_cmd = SEL_INFO_CMD (common_commands env);
          (res, w1) = execute_cmd env sel_info_cmd ReadDefault w
      in if \<not> fst res then (Inr (PInt 0), w1)
         else
           (let alert_cache_data = snd res
            in case py_iter alert_cache_data of
                 Inl e \<Rightarrow> (Inl e, w1)
               | Inr ks \<Rightarrow>
                   (case select_containing ''Percent Used'' ks of
                      Inl e \<Rightarrow> (Inl e, w1)
                    | Inr use_percent_lst \<Rightarrow>
                        (case first_of use_percent_lst of
                           Inl e \<Rightarrow> (Inl e, w1)
                         | Inr k \<Rightarrow>
                             (case py_split_method k (CHR '':'') of
                                Inl e \<Rightarrow> (Inl e, w1)
                              | Inr pieces \<Rightarrow>
                                  (let percent_use = py_rstrip ''%'' (py_strip (last pieces))
                                   in case py_int percent_use of
                                        Inl e \<Rightarrow> (Inl e, w1)
                                      | Inr n \<Rightarrow> (Inr (PInt n), w1)))))))"

definition get_fan_name :: "ras_env \<Rightarrow> ras_world \<Rightarrow> (exn + pyval) \<times> ras_world" where
  "get_fan_name env w =
     (let ipmi_tool_lst_cmd = IPMI_SDR_LIST_CMD (common_commands env);
          (componets_lst, w1) = execute_cmd env ipmi_tool_lst_cmd ReadDefault w
      in if \<not> fst componets_lst then (Inr PNone, w1)
         else
           (case py_iter (snd componets_lst) of
              Inl e \<Rightarrow> (Inl e, w1)
            | Inr items \<Rightarrow>
                (case select_containing ''FAN'' items of
                   Inl e \<Rightarrow> (Inl e, w1)
                 | Inr fan_list \<Rightarrow>
                     (case first_of fan_list of
                        Inl e \<Rightarrow> (Inl e, w1)
                      | Inr i \<Rightarrow>
                          (case py_split_method i (CHR ''|'') of
                             Inl e \<Rightarrow> (Inl e, w1)
                           | Inr pieces \<Rightarrow> (Inr (PStr (py_strip (hd pieces))), w1))))))"

subsection \<open>validate_alert_msg\<close>

text \<open>
  The loop over \<open>pattern_lst\<close>: each round opens and reads the local file again
  (\<open>FileNotFoundError\<close> when it is not there), remembers a pattern that occurs and
  leaves with \<open>(False, pattern)\<close> at the first one that does not. Both exits remove the
  local file.
\<close>

definition no_such_file :: exn where
  "no_such_file = Exn FileNotFoundError [PInt 2, PStr ''No such file or directory'']"

fun check_patterns ::
  "string list \<Rightarrow> pyval \<Rightarrow> ras_world \<Rightarrow> (exn + pyval) \<times> ras_world" where
  "check_patterns [] response w =
     (case temp_file w of
        None \<Rightarrow> (Inl no_such_file, w)
      | Some content \<Rightarrow> (Inr (PTuple [PBool True, response]), w\<lparr>temp_file := None\<rparr>))"
| "check_patterns (pattern # rest) response w =
     (case temp_file w of
        None \<Rightarrow> (Inl no_such_file, w)
      | Some content \<Rightarrow>
          if str_in pattern content
          then check_patterns rest (PStr pattern) (log_event OpenRead w)
          else (Inr (PTuple [PBool False, PStr pattern]),
                (log_event OpenRead w)\<lparr>temp_file := None\<rparr>))"

definition validate_alert_msg ::
  "ras_env \<Rightarrow> string \<Rightarrow> string list \<Rightarrow> ras_world \<Rightarrow> (exn + pyval) \<times> ras_world" where
  "validate_alert_msg env remote_file_path pattern_lst w =
     (let w1 = w\<lparr>temp_file := None\<rparr>;
          w2 = copy_s3server_file env remote_file_path w1
      in check_patterns pattern_lst PNone w2)"

subsection \<open>alert_validation\<close>

text \<open>The first element of a result tuple, read as a condition.\<close>

definition flag_of :: "pyval \<Rightarrow> bool" where
  "flag_of v = (case v of PTuple (PBool b # _) \<Rightarrow> b | _ \<Rightarrow> False)"

definition alert_validation ::
  "ras_env \<Rightarrow> string list \<Rightarrow> bool \<Rightarrow> ras_world \<Rightarrow> (exn + pyval) \<times> ras_world" where
  "alert_validation env string_list restart w =
     (let common_cfg = RAS_VAL env;
          w1 = (if restart
                then log_event (Sleep (sleep_val common_cfg))
                       (log_event (RestartPcs (sspl_resource_id common_cfg)) w)
                else w);
          (resp, w2) = get_s3server_service_status env (sspl_service common_cfg) w1
      in if \<not> fst resp then (Inr (tuple2 resp), w2)
         else
           (let (resp, w3) = get_s3server_service_status env (rabitmq_service common_cfg) w2
            in if \<not> fst resp then (Inr (tuple2 resp), w3)
               else
                 (let w4 = log_event (Sleep (sleep_val common_cfg)) w3;
                      cmd = COPY_FILE_CMD (common_commands env)
                              (screen_log common_cfg) (alert_log_file common_cfg);
                      (response, w5) = execute_cmd env cmd ReadNbytes w4
                  in if \<not> fst response then (Inr (tuple2 response), w5)
                     else
                       (let w6 = log_event (ReadFile (alert_log_file common_cfg)
                                              (temp_txt_file common_cfg)) w5
                        in case first_of string_list of
                             Inl e \<Rightarrow> (Inl e, w6)
                           | Inr s0 \<Rightarrow>
                               (let cmd = EXTRACT_LOG_CMD (common_commands env)
                                            (alert_log_file common_cfg) s0
                                            (extracted_alert_file common_cfg);
                                    (response, w7) = execute_cmd env cmd ReadNbytes w6
                                in if \<not> fst response then (Inr (tuple2 response), w7)
                                   else
                                     (case validate_alert_msg env
                                             (extracted_alert_file common_cfg) string_list w7 of
                                        (Inl e, w8) \<Rightarrow> (Inl e, w8)
                                      | (Inr resp, w8) \<Rightarrow>
                                          if \<not> flag_of resp then (Inr resp, w8)
                                          else (Inr (PTuple [PBool True,
                                                      PStr ''Fetched alerts successfully'']),
                                                w8)))))))"

section \<open>The REST wrapper for S3 accounts (csm_rest_s3user.py)\<close>

subsection \<open>Formatting\<close>

function show_nat :: "nat \<Rightarrow> string" where
  "show_nat n =
     (if n < 10 then [char_of (48 + n)] else show_nat (n div 10) @ [char_of (48 + n mod 10)])"
  by pat_completeness auto
termination
  by (relation "measure id") auto

declare show_nat.simps [simp del]

definition show_int :: "int \<Rightarrow> string" where
  "show_int i = (if i < 0 then ''-'' @ show_nat (nat (- i)) else show_nat (nat i))"

text \<open>
  \<open>str(v)\<close>, as \<open>format\<close> and \<open>%s\<close> apply it. A \<open>str\<close> is itself and the atoms
  print as the interpreter prints them; how \<open>bytes\<close> and containers print is left to the
  function \<open>repr\<close> that the caller hands in.
\<close>

definition py_str :: "(pyval \<Rightarrow> string) \<Rightarrow> pyval \<Rightarrow> string" where
  "py_str repr v =
     (case v of
        PStr s \<Rightarrow> s
      | PNone \<Rightarrow> ''None''
      | PBool b \<Rightarrow> (if b then ''True'' else ''False'')
      | PInt i \<Rightarrow> show_int i
      | _ \<Rightarrow> repr v)"

subsection \<open>Requests, responses and the environment\<close>

text \<open>
  A REST call as \<open>restapi.rest_call\<close> receives it. \<open>data\<close> is \<open>None\<close> when the call
  passes no \<open>data\<close> argument.
\<close>

record request =
  verb :: string
  endpoint :: string
  data :: "pyval option"
  headers :: pyval

text \<open>
  The response object: its status code and what \<open>json()\<close> gives (a document, or the
  exception of a body that is no JSON). It is the HTTP library's response, whose truth
  value is its \<open>ok\<close> flag: false exactly for the status codes 400 to 599.
\<close>

record response =
  status_code :: int
  json :: "exn + pyval"

definition response_ok :: "response \<Rightarrow> bool" where
  "response_ok r = (\<not> (400 \<le> status_code r \<and> status_code r < 600))"

text \<open>The entries of the configuration file that the wrapper reads.\<close>

record s3account_user_cfg =
  cfg_username :: pyval
  cfg_email :: pyval
  cfg_password :: pyval

record rest_config =
  s3accounts_endpoint :: string
  test_s3account_password :: pyval
  s3account_user :: s3account_user_cfg

text \<open>The constants of \<open>commons.constants.Rest\<close> that the wrapper names.\<close>

record rest_const =
  SUCCESS_STATUS :: int
  BAD_REQUEST :: int
  S3_ACCOUNTS :: string
  ACC_NAME :: string
  ACC_EMAIL :: string
  ACCESS_KEY :: string
  SECRET_KEY :: string
  DELETE_SUCCESS_MSG :: pyval

text \<open>
  Everything the wrapper is given from outside its file: configuration and constants;
  the headers the login decorator installs for the account named by \<open>login_as\<close>; the
  server behind \<open>rest_call\<close>, whose answer may depend on the calls made before; the clock,
  read as whole seconds; the base class's \<open>update_csm_config_for_user\<close> (\<open>None\<close> when
  it raises nothing); \<open>config_utils.verify_json_response\<close>; the \<open>args\<close> tuple the
  \<open>CTException\<close> class gives an exception built from a code and a message; and how
  containers print.
\<close>

record rest_env =
  config :: rest_config
  const :: rest_const
  headers_for :: "string option \<Rightarrow> pyval"
  server :: "request list \<Rightarrow> request \<Rightarrow> exn + response"
  clock :: "nat \<Rightarrow> int"
  update_csm_config_for_user :: "string \<Rightarrow> pyval \<Rightarrow> pyval \<Rightarrow> exn option"
  verify_json_response :: "pyval \<Rightarrow> pyval \<Rightarrow> bool"
  ct_args :: "errcode \<Rightarrow> pyval \<Rightarrow> pyval list"
  repr :: "pyval \<Rightarrow> string"

text \<open>
  The object's mutable part: the payload of the last account created, the requests sent so
  far, and how often the clock has been read.
\<close>

record rest_state =
  recently_created_s3_account_user :: pyval
  sent :: "request list"
  ticks :: nat

definition rest_call :: "rest_env \<Rightarrow> request \<Rightarrow> rest_state \<Rightarrow> (exn + response) \<times> rest_state" where
  "rest_call env req s = (server env (sent s) req, s\<lparr>sent := sent s @ [req]\<rparr>)"

subsection \<open>The exception handlers\<close>

text \<open>
  \<open>raise CTException(code, error.args[0]) from error\<close>: reading \<open>args[0]\<close> of an
  exception built without arguments is itself an \<open>IndexError\<close>.
\<close>

definition raise_CTException :: "rest_env \<Rightarrow> errcode \<Rightarrow> exn \<Rightarrow> exn" where
  "raise_CTException env code error =
     (case args error of
        [] \<Rightarrow> Exn IndexError [PStr ''tuple index out of range'']
      | a # _ \<Rightarrow> Exn (CTException code a) (ct_args env code a))"

definition except_BaseException ::
  "rest_env \<Rightarrow> errcode \<Rightarrow> (exn + 'a) \<times> rest_state \<Rightarrow> (exn + 'a) \<times> rest_state" where
  "except_BaseException env code r =
     (case r of
        (Inl error, s) \<Rightarrow> (Inl (raise_CTException env code error), s)
      | (Inr v, s) \<Rightarrow> (Inr v, s))"

definition except_Exception ::
  "rest_env \<Rightarrow> errcode \<Rightarrow> (exn + 'a) \<times> rest_state \<Rightarrow> (exn + 'a) \<times> rest_state" where
  "except_Exception env code r =
     (case r of
        (Inl error, s) \<Rightarrow>
          if is_Exception (cls error) then (Inl (raise_CTException env code error), s)
          else (Inl error, s)
      | (Inr v, s) \<Rightarrow> (Inr v, s))"

subsection \<open>Creating an account\<close>

definition unbound_local :: "string \<Rightarrow> exn" where
  "unbound_local name =
     Exn UnboundLocalError
       [PStr (''local variable '' @ quoted name @ '' referenced before assignment'')]"

text \<open>
  \<open>create_s3_account\<close> asks \<open>create_payload_for_new_s3_account\<close> for the payload, and
  the payload of a duplicate is made by creating a default account first.
\<close>

function
  create_s3_account ::
    "rest_env \<Rightarrow> string \<Rightarrow> bool \<Rightarrow> string option \<Rightarrow> rest_state \<Rightarrow> (exn + response) \<times> rest_state"
and
  create_payload_for_new_s3_account ::
    "rest_env \<Rightarrow> string \<Rightarrow> rest_state \<Rightarrow> (exn + pyval) \<times> rest_state"
where
  "create_s3_account env user_type save_new_user login_as s =
     except_BaseException env CSM_REST_AUTHENTICATION_ERROR
       (let endpoint = s3accounts_endpoint (config env)
        in case create_payload_for_new_s3_account env user_type s of
             (Inl e, s1) \<Rightarrow> (Inl e, s1)
           | (Inr user_data, s1) \<Rightarrow>
               (let s2 = s1\<lparr>recently_created_s3_account_user := user_data\<rparr>;
                    saved =
                      (if save_new_user
                       then (case py_getitem user_data ''account_name'' of
                               Inl e \<Rightarrow> Some e
                             | Inr name \<Rightarrow>
                                 (case py_getitem user_data ''password'' of
                                    Inl e \<Rightarrow> Some e
                                  | Inr password \<Rightarrow>
                                      update_csm_config_for_user env
                                        ''new_s3_account_user'' name password))
                       else None)
                in case saved of
                     Some e \<Rightarrow> (Inl e, s2)
                   | None \<Rightarrow>
                       rest_call env
                         \<lparr>verb = ''post'', endpoint = endpoint, data = Some user_data,
                          headers = headers_for env login_as\<rparr> s2))"
| "create_payload_for_new_s3_account env user_type s =
     except_Exception env CSM_REST_VERIFICATION_FAILED
       (if user_type = ''pre-define''
        then (let data = s3account_user (config env)
              in (Inr (PDict [(''account_name'', cfg_username data),
                              (''account_email'', cfg_email data),
                              (''password'', cfg_password data)]), s))
        else
          (let (user_name, email_id, s1) =
                 (if user_type = ''valid''
                  then (Some (''test'' @ show_int (clock env (ticks s))),
                        Some (''test'' @ show_int (clock env (Suc (ticks s))) @ ''@seagate.com''),
                        s\<lparr>ticks := Suc (Suc (ticks s))\<rparr>)
                  else (None, None, s))
           in if user_type = ''duplicate''
              then (case create_s3_account env ''valid'' False None s1 of
                      (Inl e, s2) \<Rightarrow> (Inl e, s2)
                    | (Inr created, s2) \<Rightarrow> (Inr (recently_created_s3_account_user s2), s2))
              else if user_type = ''missing''
              then (Inr (PDict [(''password'', test_s3account_password (config env))]), s1)
              else if user_type = ''invalid''
              then (Inr (PDict [(''user_name'', PStr ''xys''),
                                (''mail'', PStr ''abc@email.com''),
                                (''pass_word'', PStr ''password'')]), s1)
              else if user_type = ''invalid_for_ui''
              then (Inr (PDict [(''account_name'', PStr ''*ask%^*&''),
                                (''account_email'', PStr ''seagate*mail-com''),
                                (''password'', PStr ''password'')]), s1)
              else (case user_name of
                      None \<Rightarrow> (Inl (unbound_local ''user_name''), s1)
                    | Some name \<Rightarrow>
                        (case email_id of
                           None \<Rightarrow> (Inl (unbound_local ''email_id''), s1)
                         | Some email \<Rightarrow>
                             (Inr (PDict [(''account_name'', PStr name),
                                          (''account_email'', PStr email),
                                          (''password'', test_s3account_password (config env))]),
                              s1)))))"
  by pat_completeness auto
termination
  by (relation "measure (\<lambda>x. case x of
         Inl (env, user_type, save_new_user, login_as, s) \<Rightarrow>
           (if user_type = ''duplicate'' then 3 else 1)
       | Inr (env, user_type, s) \<Rightarrow> (if user_type = ''duplicate'' then 2 else 0))") auto

declare create_s3_account.simps [simp del]
declare create_payload_for_new_s3_account.simps [simp del]

subsection \<open>Listing, editing and deleting\<close>

definition list_all_created_s3account ::
  "rest_env \<Rightarrow> string option \<Rightarrow> rest_state \<Rightarrow> (exn + response) \<times> rest_state" where
  "list_all_created_s3account env login_as s =
     except_BaseException env CSM_REST_AUTHENTICATION_ERROR
       (let endpoint = s3accounts_endpoint (config env)
        in rest_call env
             \<lparr>verb = ''get'', endpoint = endpoint, data = None,
              headers = headers_for env login_as\<rparr> s)"

text \<open>The payload table is built whole before the requested entry is looked up.\<close>

definition edit_user_payload :: "rest_env \<Rightarrow> string \<Rightarrow> rest_state \<Rightarrow> (exn + pyval) \<times> rest_state" where
  "edit_user_payload env payload_type s =
     except_Exception env CSM_REST_VERIFICATION_FAILED
       (let payload_values =
              [(''valid'', PDict [(''password'', test_s3account_password (config env)),
                                  (''reset_access_key'', PStr ''true'')]),
               (''unchanged_access'', PDict [(''password'', test_s3account_password (config env)),
                                             (''reset_access_key'', PStr ''false'')]),
               (''only_reset_access_key'', PDict [(''reset_access_key'', PStr ''true'')]),
               (''only_password'', PDict [(''password'', test_s3account_password (config env))]),
               (''no_payload'', PDict [])]
        in case map_of payload_values payload_type of
             None \<Rightarrow> (Inr PNone, s)
           | Some payload \<Rightarrow> (Inr payload, s))"

text \<open>\<open>"{}/{}".format(endpoint, username)\<close>.\<close>

definition user_endpoint :: "rest_env \<Rightarrow> pyval \<Rightarrow> string" where
  "user_endpoint env username =
     s3accounts_endpoint (config env) @ ''/'' @ py_str (repr env) username"

definition edit_s3_account_user ::
  "rest_env \<Rightarrow> pyval \<Rightarrow> string \<Rightarrow> string option \<Rightarrow> rest_state
     \<Rightarrow> (exn + response) \<times> rest_state" where
  "edit_s3_account_user env username payload login_as s =
     except_BaseException env CSM_REST_AUTHENTICATION_ERROR
       (let endpoint = user_endpoint env username
        in case edit_user_payload env payload s of
             (Inl e, s1) \<Rightarrow> (Inl e, s1)
           | (Inr patch_payload, s1) \<Rightarrow>
               rest_call env
                 \<lparr>verb = ''patch'', endpoint = endpoint, data = Some patch_payload,
                  headers = headers_for env login_as\<rparr> s1)"

definition delete_s3_account_user ::
  "rest_env \<Rightarrow> pyval \<Rightarrow> string option \<Rightarrow> rest_state \<Rightarrow> (exn + response) \<times> rest_state" where
  "delete_s3_account_user env username login_as s =
     except_BaseException env CSM_REST_AUTHENTICATION_ERROR
       (let endpoint = user_endpoint env username
        in rest_call env
             \<lparr>verb = ''delete'', endpoint = endpoint, data = None,
              headers = headers_for env login_as\<rparr> s)"

definition edit_s3_account_user_invalid_password ::
  "rest_env \<Rightarrow> pyval \<Rightarrow> pyval \<Rightarrow> string option \<Rightarrow> rest_state
     \<Rightarrow> (exn + response) \<times> rest_state" where
  "edit_s3_account_user_invalid_password env username payload login_as s =
     except_BaseException env CSM_REST_AUTHENTICATION_ERROR
       (let endpoint = user_endpoint env username
        in rest_call env
             \<lparr>verb = ''patch'', endpoint = endpoint, data = Some payload,
              headers = headers_for env login_as\<rparr> s)"

subsection \<open>The verification routines\<close>

text \<open>
  \<open>all(ACC_NAME in key and ACC_EMAIL in key for key in accounts)\<close>: the scan stops at
  the first account that lacks a key, and an entry that cannot be searched raises.
\<close>

fun all_named :: "rest_const \<Rightarrow> pyval list \<Rightarrow> exn + bool" where
  "all_named k [] = Inr True"
| "all_named k (key # rest) =
     (case py_in (ACC_NAME k) key of
        Inl e \<Rightarrow> Inl e
      | Inr has_name \<Rightarrow>
          if \<not> has_name then Inr False
          else (case py_in (ACC_EMAIL k) key of
                  Inl e \<Rightarrow> Inl e
                | Inr has_email \<Rightarrow> if \<not> has_email then Inr False else all_named k rest))"

definition verify_list_s3account_details ::
  "rest_env \<Rightarrow> bool \<Rightarrow> rest_state \<Rightarrow> (exn + bool) \<times> rest_state" where
  "verify_list_s3account_details env expect_no_user s =
     except_Exception env CSM_REST_VERIFICATION_FAILED
       (case list_all_created_s3account env None s of
          (Inl e, s1) \<Rightarrow> (Inl e, s1)
        | (Inr response, s1) \<Rightarrow>
            if \<not> response_ok response \<or> status_code response \<noteq> SUCCESS_STATUS (const env)
            then (Inr False, s1)
            else
              (case json response of
                 Inl e \<Rightarrow> (Inl e, s1)
               | Inr body \<Rightarrow>
                   (case py_in (S3_ACCOUNTS (const env)) body of
                      Inl e \<Rightarrow> (Inl e, s1)
                    | Inr present \<Rightarrow>
                        if \<not> present then (Inr False, s1)
                        else
                          (case py_getitem body ''s3_accounts'' of
                             Inl e \<Rightarrow> (Inl e, s1)
                           | Inr accounts \<Rightarrow>
                               (case py_len accounts of
                                  Inl e \<Rightarrow> (Inl e, s1)
                                | Inr n \<Rightarrow>
                                    if n = 0 \<or> expect_no_user
                                    then
                                      (case py_getitem body ''iam_users'' of
                                         Inl e \<Rightarrow> (Inl e, s1)
                                       | Inr iam_users \<Rightarrow>
                                           (case py_len iam_users of
                                              Inl e \<Rightarrow> (Inl e, s1)
                                            | Inr m \<Rightarrow> (Inr (n = 0 \<and> expect_no_user), s1)))
                                    else
                                      (case py_iter accounts of
                                         Inl e \<Rightarrow> (Inl e, s1)
                                       | Inr keys \<Rightarrow>
                                           (case all_named (const env) keys of
                                              Inl e \<Rightarrow> (Inl e, s1)
                                            | Inr ok \<Rightarrow> (Inr ok, s1))))))))"

text \<open>
  \<open>if ACCESS_KEY not in response and SECRET_KEY not in response\<close>: the second test is
  made only when the first key is absent. The result is the condition's value.
\<close>

definition both_keys_absent :: "rest_const \<Rightarrow> pyval \<Rightarrow> exn + bool" where
  "both_keys_absent k body =
     (case py_in (ACCESS_KEY k) body of
        Inl e \<Rightarrow> Inl e
      | Inr has_access \<Rightarrow>
          if has_access then Inr False
          else (case py_in (SECRET_KEY k) body of
                  Inl e \<Rightarrow> Inl e
                | Inr has_secret \<Rightarrow> Inr (\<not> has_secret)))"

definition self_user_type :: "string list" where
  "self_user_type = [''valid'', ''duplicate'', ''invalid'', ''missing'']"

definition create_and_verify_s3account ::
  "rest_env \<Rightarrow> string \<Rightarrow> int \<Rightarrow> rest_state \<Rightarrow> (exn + bool) \<times> rest_state" where
  "create_and_verify_s3account env user expect_status_code s =
     except_Exception env CSM_REST_VERIFICATION_FAILED
       (if user \<notin> set self_user_type then (Inr False, s)
        else
          (case create_s3_account env user False None s of
             (Inl e, s1) \<Rightarrow> (Inl e, s1)
           | (Inr response, s1) \<Rightarrow>
               if user \<noteq> ''valid'' then (Inr (status_code response = expect_status_code), s1)
               else if \<not> response_ok response \<or> status_code response \<noteq> expect_status_code
               then (Inr False, s1)
               else
                 (case json response of
                    Inl e \<Rightarrow> (Inl e, s1)
                  | Inr body \<Rightarrow>
                      (case both_keys_absent (const env) body of
                         Inl e \<Rightarrow> (Inl e, s1)
                       | Inr absent \<Rightarrow>
                           if absent then (Inr False, s1)
                           else
                             (case py_getitem body (ACC_NAME (const env)) of
                                Inl e \<Rightarrow> (Inl e, s1)
                              | Inr name \<Rightarrow>
                             (case py_getitem (recently_created_s3_account_user s1)
                                     (ACC_NAME (const env)) of
                                Inl e \<Rightarrow> (Inl e, s1)
                              | Inr created_name \<Rightarrow>
                             if name \<noteq> created_name then (Inr False, s1)
                             else
                             (case py_getitem body (ACC_EMAIL (const env)) of
                                Inl e \<Rightarrow> (Inl e, s1)
                              | Inr email \<Rightarrow>
                             (case py_getitem (recently_created_s3_account_user s1)
                                     (ACC_EMAIL (const env)) of
                                Inl e \<Rightarrow> (Inl e, s1)
                              | Inr created_email \<Rightarrow>
                             if email \<noteq> created_email then (Inr False, s1)
                             else
                             (case list_all_created_s3account env None s1 of
                                (Inl e, s2) \<Rightarrow> (Inl e, s2)
                              | (Inr listing, s2) \<Rightarrow>
                             (case json listing of
                                Inl e \<Rightarrow> (Inl e, s2)
                              | Inr listed \<Rightarrow>
                             (case py_getitem listed ''s3_accounts'' of
                                Inl e \<Rightarrow> (Inl e, s2)
                              | Inr list_acc \<Rightarrow>
                             (let expected_result =
                                    PDict [(ACC_NAME (const env), name),
                                           (ACC_EMAIL (const env), email)]
                              in case py_iter list_acc of
                                   Inl e \<Rightarrow> (Inl e, s2)
                                 | Inr actual_results \<Rightarrow>
                                     (Inr (list_ex (\<lambda>actual_result.
                                              verify_json_response env actual_result
                                                expected_result) actual_results),
                                      s2)))))))))))))"

definition edit_and_verify_s3_account_user ::
  "rest_env \<Rightarrow> string \<Rightarrow> rest_state \<Rightarrow> (exn + bool) \<times> rest_state" where
  "edit_and_verify_s3_account_user env user_payload s =
     except_Exception env CSM_REST_VERIFICATION_FAILED
       (case create_s3_account env ''valid'' True None s of
          (Inl e, s1) \<Rightarrow> (Inl e, s1)
        | (Inr created, s1) \<Rightarrow>
       (case py_getitem (recently_created_s3_account_user s1) ''account_name'' of
          Inl e \<Rightarrow> (Inl e, s1)
        | Inr account_name \<Rightarrow>
       (case edit_s3_account_user env account_name user_payload
               (Some ''new_s3_account_user'') s1 of
          (Inl e, s2) \<Rightarrow> (Inl e, s2)
        | (Inr response, s2) \<Rightarrow>
            if user_payload \<in> set [''unchanged_access'', ''only_password'']
            then
              (if \<not> response_ok response \<or> status_code response \<noteq> SUCCESS_STATUS (const env)
               then (Inr False, s2)
               else
                 (case json response of
                    Inl e \<Rightarrow> (Inl e, s2)
                  | Inr body \<Rightarrow>
                      (case py_getitem body (ACC_NAME (const env)) of
                         Inl e \<Rightarrow> (Inl e, s2)
                       | Inr name \<Rightarrow>
                           if name \<noteq> account_name then (Inr False, s2)
                           else
                             (case py_in (ACCESS_KEY (const env)) body of
                                Inl e \<Rightarrow> (Inl e, s2)
                              | Inr has_access \<Rightarrow>
                                  if has_access then (Inr False, s2)
                                  else
                                    (case py_in (SECRET_KEY (const env)) body of
                                       Inl e \<Rightarrow> (Inl e, s2)
                                     | Inr has_secret \<Rightarrow> (Inr (\<not> has_secret), s2))))))
            else if user_payload \<noteq> ''valid''
            then (Inr (\<not> response_ok response
                        \<and> status_code response = BAD_REQUEST (const env)), s2)
            else if \<not> response_ok response \<or> status_code response \<noteq> SUCCESS_STATUS (const env)
            then (Inr False, s2)
            else
              (case json response of
                 Inl e \<Rightarrow> (Inl e, s2)
               | Inr body \<Rightarrow>
                   (case both_keys_absent (const env) body of
                      Inl e \<Rightarrow> (Inl e, s2)
                    | Inr absent \<Rightarrow>
                        if absent then (Inr False, s2)
                        else
                          (case py_in (ACC_NAME (const env)) body of
                             Inl e \<Rightarrow> (Inl e, s2)
                           | Inr has_name \<Rightarrow>
                               if \<not> has_name then (Inr False, s2)
                               else
                                 (case py_getitem body (ACC_NAME (const env)) of
                                    Inl e \<Rightarrow> (Inl e, s2)
                                  | Inr name \<Rightarrow> (Inr (name = account_name), s2))))))))"

definition delete_and_verify_s3_account_user ::
  "rest_env \<Rightarrow> rest_state \<Rightarrow> (exn + bool) \<times> rest_state" where
  "delete_and_verify_s3_account_user env s =
     except_Exception env CSM_REST_VERIFICATION_FAILED
       (case create_s3_account env ''valid'' True None s of
          (Inl e, s1) \<Rightarrow> (Inl e, s1)
        | (Inr created, s1) \<Rightarrow>
       (case py_getitem (recently_created_s3_account_user s1) ''account_name'' of
          Inl e \<Rightarrow> (Inl e, s1)
        | Inr account_name \<Rightarrow>
       (case delete_s3_account_user env account_name (Some ''new_s3_account_user'') s1 of
          (Inl e, s2) \<Rightarrow> (Inl e, s2)
        | (Inr response, s2) \<Rightarrow>
            if \<not> response_ok response \<or> status_code response \<noteq> SUCCESS_STATUS (const env)
            then (Inr False, s2)
            else
              (case json response of
                 Inl e \<Rightarrow> (Inl e, s2)
               | Inr body \<Rightarrow>
                   (case py_getitem body ''message'' of
                      Inl e \<Rightarrow> (Inl e, s2)
                    | Inr message \<Rightarrow>
                        (Inr (message = DELETE_SUCCESS_MSG (const env)), s2))))))"

section \<open>Support-bundle collection (test_support_bundle.py)\<close>

text \<open>
  What \<open>create_support_bundle\<close> takes from outside: the configured success message, the
  bundle command, the node's credentials, \<open>run_remote_cmd\<close> (command, host, user,
  password) answering with a status flag and the output, and how containers print.
\<close>

record bundle_env =
  success_msg :: string
  BUNDLE_CMD :: string
  uname :: string
  passwd :: string
  run_remote_cmd :: "string \<Rightarrow> string \<Rightarrow> string \<Rightarrow> string \<Rightarrow> bool \<times> pyval"
  bundle_repr :: "pyval \<Rightarrow> string"

definition remote_execution ::
  "bundle_env \<Rightarrow> string \<Rightarrow> string \<Rightarrow> string \<Rightarrow> string \<Rightarrow> bool \<times> pyval" where
  "remote_execution env hostname username password cmd =
     run_remote_cmd env cmd hostname username password"

text \<open>The truth value of a value, as \<open>if resp_lst:\<close> reads it.\<close>

definition py_truthy :: "pyval \<Rightarrow> bool" where
  "py_truthy v =
     (case v of
        PNone \<Rightarrow> False
      | PBool b \<Rightarrow> b
      | PInt i \<Rightarrow> i \<noteq> 0
      | PStr s \<Rightarrow> s \<noteq> []
      | PBytes s \<Rightarrow> s \<noteq> []
      | PList xs \<Rightarrow> xs \<noteq> []
      | PTuple xs \<Rightarrow> xs \<noteq> []
      | PDict d \<Rightarrow> d \<noteq> [])"

text \<open>
  \<open>resp_lst.append(flag, output)\<close>: \<open>append\<close> takes one argument, so the call with two
  raises on a list; a value of another type has no such method.
\<close>

definition append_two :: "pyval \<Rightarrow> exn" where
  "append_two resp_lst =
     (case resp_lst of
        PList xs \<Rightarrow> Exn TypeError [PStr ''append() takes exactly one argument (2 given)'']
      | _ \<Rightarrow> Exn AttributeError
               [PStr (quoted (type_name resp_lst) @ '' object has no attribute ''
                      @ quoted ''append'')])"

text \<open>
  The function's result together with the list \<open>resp_lst\<close> as it stands afterwards.
\<close>

definition create_support_bundle ::
  "bundle_env \<Rightarrow> string \<Rightarrow> string \<Rightarrow> string \<Rightarrow> pyval \<Rightarrow> (exn + pyval) \<times> pyval" where
  "create_support_bundle env bundle_name dest_dir host_ip resp_lst =
     (let final_cmd = BUNDLE_CMD env @ '' '' @ bundle_name @ '' '' @ dest_dir;
          resp = remote_execution env host_ip (uname env) (passwd env) final_cmd;
          failed = (if py_truthy resp_lst then (Inl (append_two resp_lst), resp_lst)
                    else (Inr (PTuple [PBool False, snd resp]), resp_lst))
      in if fst resp
         then (if str_in (success_msg env) (py_str (bundle_repr env) (snd resp))
               then (if py_truthy resp_lst then (Inl (append_two resp_lst), resp_lst)
                     else (Inr (PTuple [PBool True, snd resp]), resp_lst))
               else failed)
         else failed)"

text \<open>\<open>all([temp[0] for temp in resp_lst])\<close> over a list of result tuples.\<close>

definition all_flags :: "pyval list \<Rightarrow> bool" where
  "all_flags resp_lst = list_all flag_of resp_lst"

section \<open>Example environments\<close>

definition example_commands :: commands where
  "example_commands =
     \<lparr>EMPTY_FILE_CMD = (\<lambda>f. ''truncate -s 0 '' @ f),
      COPY_FILE_CMD = (\<lambda>a b. ''cp -f '' @ a @ '' '' @ b),
      INSTALL_SCREEN_CMD = ''yum -y install screen'',
      SCREEN_CMD = (\<lambda>c. ''screen -d -m -L -S screen_RMQ '' @ c),
      UPDATE_STAT_FILE_CMD = (\<lambda>f. ''echo state=active > '' @ f),
      SERVICE_STATUS_PATH = ''/var/cortx/sspl/data/state.txt'',
      FILE_MODE_CHANGE_CMD = (\<lambda>f. ''chmod +x '' @ f),
      GET_CLUSTER_ID_CMD = ''salt-call grains.get cluster_id'',
      ENCRYPT_PASSWORD_CMD = (\<lambda>p c. ''python3 encryptor.py encrypt '' @ c @ '' '' @ p),
      CONSUL_PATH = ''/usr/bin/consul'',
      MDADM_CMD = (\<lambda>a. ''mdadm '' @ a),
      SEL_INFO_CMD = ''ipmitool sel info'',
      IPMI_SDR_LIST_CMD = ''ipmitool sdr list'',
      EXTRACT_LOG_CMD = (\<lambda>f s out. ''cat '' @ f @ '' | grep '' @ s @ '' > '' @ out)\<rparr>"

definition example_alert_cfg :: ras_sspl_alert where
  "example_alert_cfg =
     \<lparr>sspl_resource_id = ''sspl-ll'',
      sleep_val = 120,
      sspl_service = ''sspl-ll'',
      rabitmq_service = ''rabbitmq-server'',
      screen_log = ''/root/screenlog.0'',
      alert_log_file = ''/root/alert.log'',
      temp_txt_file = ''temp.txt'',
      extracted_alert_file = ''/root/extracted_alert.log''\<rparr>"

text \<open>A node on which every command fails and every service is down.\<close>

definition failing_node :: ras_env where
  "failing_node =
     \<lparr>RAS_VAL = example_alert_cfg,
      common_commands = example_commands,
      node_execute_cmd = (\<lambda>done cmd opt. (False, PBytes ''command not found'')),
      s3_service_status = (\<lambda>done service. (False, PStr ''inactive'')),
      s3_copy_file = (\<lambda>done path. None)\<rparr>"

text \<open>
  A node on which every command succeeds and every service runs, and whose extracted
  alert file holds one alert line.
\<close>

definition healthy_node :: ras_env where
  "healthy_node =
     \<lparr>RAS_VAL = example_alert_cfg,
      common_commands = example_commands,
      node_execute_cmd = (\<lambda>done cmd opt. (True, PBytes [])),
      s3_service_status = (\<lambda>done service. (True, PStr ''active'')),
      s3_copy_file = (\<lambda>done path. Some ''enclosure:fru:fan fault state'')\<rparr>"

text \<open>Healthy services, but the node refuses every command.\<close>

definition refusing_node :: ras_env where
  "refusing_node = healthy_node\<lparr>node_execute_cmd := (\<lambda>done cmd opt. (False, PBytes ''denied''))\<rparr>"

text \<open>The first service is up, the message broker is not.\<close>

definition broker_down_node :: ras_env where
  "broker_down_node =
     healthy_node\<lparr>s3_service_status :=
       (\<lambda>done service. if service = ''sspl-ll'' then (True, PStr ''active'')
                         else (False, PStr ''inactive''))\<rparr>"

text \<open>Every command succeeds until the log has been read; the extraction then fails.\<close>

definition extraction_fails_node :: ras_env where
  "extraction_fails_node =
     healthy_node\<lparr>node_execute_cmd :=
       (\<lambda>done cmd opt. if list_ex (\<lambda>ev. case ev of ReadFile a b \<Rightarrow> True | _ \<Rightarrow> False) done
                        then (False, PBytes ''grep: no match'') else (True, PBytes []))\<rparr>"

definition fresh_world :: ras_world where
  "fresh_world = \<lparr>trace = [], temp_file = None\<rparr>"

definition example_bundle_env :: "bool \<Rightarrow> bundle_env" where
  "example_bundle_env ok =
     \<lparr>success_msg = ''S3 support bundle generated successfully'',
      BUNDLE_CMD = ''sh /opt/seagate/cortx/s3/scripts/s3_bundle_generate.sh'',
      uname = ''root'',
      passwd = ''secret'',
      run_remote_cmd =
        (\<lambda>cmd host user pwd.
           if ok then (True, PStr ''S3 support bundle generated successfully !!!'')
           else (False, PStr ''No such file or directory'')),
      bundle_repr = (\<lambda>v. [])\<rparr>"

definition example_const :: rest_const where
  "example_const =
     \<lparr>SUCCESS_STATUS = 200,
      BAD_REQUEST = 400,
      S3_ACCOUNTS = ''s3_accounts'',
      ACC_NAME = ''account_name'',
      ACC_EMAIL = ''account_email'',
      ACCESS_KEY = ''access_key'',
      SECRET_KEY = ''secret_key'',
      DELETE_SUCCESS_MSG = PStr ''Account Deleted Successfully.''\<rparr>"

definition example_config :: rest_config where
  "example_config =
     \<lparr>s3accounts_endpoint = ''/api/v1/s3_accounts'',
      test_s3account_password = PStr ''Seagate@1'',
      s3account_user =
        \<lparr>cfg_username = PStr ''s3acc'', cfg_email = PStr ''s3acc@seagate.com'',
         cfg_password = PStr ''Seagate@1''\<rparr>\<rparr>"

text \<open>
  An environment around a given server. The clock stands at 7 seconds; an exception built
  by \<open>CTException\<close> keeps its two constructor arguments as \<open>args\<close>.
\<close>

definition example_env :: "(request list \<Rightarrow> request \<Rightarrow> exn + response) \<Rightarrow> rest_env" where
  "example_env srv =
     \<lparr>config = example_config,
      const = example_const,
      headers_for = (\<lambda>login. PDict [(''Authorization'', PStr ''Bearer token'')]),
      server = srv,
      clock = (\<lambda>n. 7),
      update_csm_config_for_user = (\<lambda>key name password. None),
      verify_json_response =
        (\<lambda>actual expected.
           py_getitem actual ''account_name'' = py_getitem expected ''account_name''),
      ct_args = (\<lambda>code msg. [PStr ''CTError'', msg]),
      repr = (\<lambda>v. [])\<rparr>"

definition fresh_state :: rest_state where
  "fresh_state = \<lparr>recently_created_s3_account_user = PNone, sent = [], ticks = 0\<rparr>"

text \<open>A server whose every call is interrupted: the exception carries no arguments.\<close>

definition interrupted_server :: "request list \<Rightarrow> request \<Rightarrow> exn + response" where
  "interrupted_server done req = Inl (Exn KeyboardInterrupt [])"

text \<open>A server that refuses the connection.\<close>

definition unreachable_server :: "request list \<Rightarrow> request \<Rightarrow> exn + response" where
  "unreachable_server done req = Inl (Exn (OtherException ''ConnectionError'') [PStr ''refused''])"

text \<open>
  A server that answers every request with status 200. A created or edited account comes
  back with its name, its e-mail address and an access key, but without a secret key; a
  listing holds that one account.
\<close>

definition account_doc :: pyval where
  "account_doc =
     PDict [(''account_name'', PStr ''test7''),
            (''account_email'', PStr ''test7@seagate.com''),
            (''access_key'', PStr ''AKIAEXAMPLE'')]"

definition keyless_server :: "request list \<Rightarrow> request \<Rightarrow> exn + response" where
  "keyless_server done req =
     (if verb req = ''get''
      then Inr \<lparr>status_code = 200, json = Inr (PDict [(''s3_accounts'', PList [account_doc])])\<rparr>
      else Inr \<lparr>status_code = 200, json = Inr account_doc\<rparr>)"

text \<open>A server with no accounts, whose listing has no \<open>iam_users\<close> entry.\<close>

definition empty_server :: "request list \<Rightarrow> request \<Rightarrow> exn + response" where
  "empty_server done req =
     Inr \<lparr>status_code = 200, json = Inr (PDict [(''s3_accounts'', PList [])])\<rparr>"


section \<open>Properties\<close>

subsection \<open>Pattern matching in the alert file\<close>

lemma str_in_iff_sublist: "str_in p s \<longleftrightarrow> sublist p s"
  by (induction s) (auto simp: sublist_Cons_right)

lemma py_split_nonempty: "py_split sep s \<noteq> []"
  by (induction s) (auto split: list.splits)

lemma check_patterns_all:
  "temp_file w = Some content \<Longrightarrow> \<forall>p\<in>set ps. str_in p content \<Longrightarrow>
   check_patterns ps r w =
     (Inr (PTuple [PBool True, if ps = [] then r else PStr (last ps)]),
      w\<lparr>trace := trace w @ replicate (length ps) OpenRead, temp_file := None\<rparr>)"
proof (induction ps arbitrary: r w)
  case Nil
  then show ?case by simp
next
  case (Cons p ps)
  have "temp_file (log_event OpenRead w) = Some content"
    using Cons.prems(1) by (simp add: log_event_def)
  from Cons.IH[OF this, of "PStr p"] Cons.prems show ?case
    by (simp add: log_event_def replicate_append_same)
qed

lemma check_patterns_first_missing:
  "temp_file w = Some content \<Longrightarrow> \<forall>q\<in>set pre. str_in q content \<Longrightarrow> \<not> str_in p content \<Longrightarrow>
   check_patterns (pre @ p # rest) r w =
     (Inr (PTuple [PBool False, PStr p]),
      w\<lparr>trace := trace w @ replicate (Suc (length pre)) OpenRead, temp_file := None\<rparr>)"
proof (induction pre arbitrary: r w)
  case Nil
  then show ?case by (simp add: log_event_def)
next
  case (Cons q pre)
  have "temp_file (log_event OpenRead w) = Some content"
    using Cons.prems(1) by (simp add: log_event_def)
  from Cons.IH[OF this, of "PStr q"] Cons.prems show ?case
    by (simp add: log_event_def replicate_append_same)
qed

text \<open>
  Claim C10. \<open>validate_alert_msg\<close> checks the patterns in list order against the
  content of the fetched local copy. When every pattern occurs in the content it returns
  \<open>(True, p)\<close> for the last pattern \<open>p\<close> (\<open>(True, None)\<close> for an empty list), having
  read the file once per pattern. When \<open>p\<close> is the first pattern that does not occur it
  returns \<open>(False, p)\<close>, having read the file once for \<open>p\<close> and once for each pattern
  before it: the patterns after \<open>p\<close> are not examined, and they do not affect the result.
\<close>

theorem validate_alert_msg_in_order:
  assumes copy: "s3_copy_file env (trace w) remote_file_path = Some content"
  shows "((\<forall>p\<in>set pattern_lst. sublist p content) \<longrightarrow>
           validate_alert_msg env remote_file_path pattern_lst w =
             (Inr (PTuple [PBool True, if pattern_lst = [] then PNone else PStr (last pattern_lst)]),
              \<lparr>trace = trace w @ CopyS3File remote_file_path # replicate (length pattern_lst) OpenRead,
               temp_file = None\<rparr>))
       \<and> (pattern_lst = pre @ p # rest \<and> (\<forall>q\<in>set pre. sublist q content) \<and> \<not> sublist p content \<longrightarrow>
           validate_alert_msg env remote_file_path pattern_lst w =
             (Inr (PTuple [PBool False, PStr p]),
              \<lparr>trace = trace w @ CopyS3File remote_file_path # replicate (Suc (length pre)) OpenRead,
               temp_file = None\<rparr>))"
proof -
  let ?w2 = "copy_s3server_file env remote_file_path (w\<lparr>temp_file := None\<rparr>)"
  have tf: "temp_file ?w2 = Some content"
    using copy by (simp add: copy_s3server_file_def log_event_def)
  have tr: "trace ?w2 = trace w @ [CopyS3File remote_file_path]"
    by (simp add: copy_s3server_file_def log_event_def)
  have a: "(\<forall>p\<in>set pattern_lst. sublist p content) \<longrightarrow>
           validate_alert_msg env remote_file_path pattern_lst w =
             (Inr (PTuple [PBool True, if pattern_lst = [] then PNone else PStr (last pattern_lst)]),
              \<lparr>trace = trace w @ CopyS3File remote_file_path # replicate (length pattern_lst) OpenRead,
               temp_file = None\<rparr>)"
    using check_patterns_all[OF tf, of pattern_lst PNone] tr
    by (simp add: validate_alert_msg_def str_in_iff_sublist copy_s3server_file_def log_event_def)
  have b: "pattern_lst = pre @ p # rest \<and> (\<forall>q\<in>set pre. sublist q content) \<and> \<not> sublist p content \<longrightarrow>
           validate_alert_msg env remote_file_path pattern_lst w =
             (Inr (PTuple [PBool False, PStr p]),
              \<lparr>trace = trace w @ CopyS3File remote_file_path # replicate (Suc (length pre)) OpenRead,
               temp_file = None\<rparr>)"
    using check_patterns_first_missing[OF tf, of pre p rest PNone] tr
    by (simp add: validate_alert_msg_def str_in_iff_sublist copy_s3server_file_def log_event_def)
  from a b show ?thesis by blast
qed

theorem validate_alert_msg_in_order_witness:
  "validate_alert_msg healthy_node ''/root/extracted_alert.log'' [''enclosure'', ''fan''] fresh_world =
     (Inr (PTuple [PBool True, PStr ''fan'']),
      \<lparr>trace = [CopyS3File ''/root/extracted_alert.log'', OpenRead, OpenRead], temp_file = None\<rparr>)
   \<and> validate_alert_msg healthy_node ''/root/extracted_alert.log'' [''fan'', ''psu'', ''fault''] fresh_world =
     (Inr (PTuple [PBool False, PStr ''psu'']),
      \<lparr>trace = [CopyS3File ''/root/extracted_alert.log'', OpenRead, OpenRead], temp_file = None\<rparr>)"
proof -
  let ?c = "''enclosure:fru:fan fault state''"
  have copy: "s3_copy_file healthy_node (trace fresh_world) ''/root/extracted_alert.log'' = Some ?c"
    by (simp add: healthy_node_def)
  have s1: "sublist ''enclosure'' ?c" and s2: "sublist ''fan'' ?c" and s3: "\<not> sublist ''psu'' ?c"
    by (simp_all add: str_in_iff_sublist[symmetric])
  have tr: "trace fresh_world = []" by (simp add: fresh_world_def)
  from validate_alert_msg_in_order[OF copy, of "[''enclosure'', ''fan'']" "[]" "''x''" "[]"] s1 s2
  have a: "validate_alert_msg healthy_node ''/root/extracted_alert.log'' [''enclosure'', ''fan''] fresh_world =
     (Inr (PTuple [PBool True, PStr ''fan'']),
      \<lparr>trace = [CopyS3File ''/root/extracted_alert.log'', OpenRead, OpenRead], temp_file = None\<rparr>)"
    by (simp add: tr numeral_2_eq_2)
  from validate_alert_msg_in_order[OF copy, of "[''fan'', ''psu'', ''fault'']" "[''fan'']" "''psu''" "[''fault'']"] s2 s3
  have b: "validate_alert_msg healthy_node ''/root/extracted_alert.log'' [''fan'', ''psu'', ''fault''] fresh_world =
     (Inr (PTuple [PBool False, PStr ''psu'']),
      \<lparr>trace = [CopyS3File ''/root/extracted_alert.log'', OpenRead, OpenRead], temp_file = None\<rparr>)"
    by (simp add: tr)
  from a b show ?thesis by (rule conjI)
qed

subsection \<open>Failed steps in the remote-operations library\<close>

lemmas ras_io_defs = execute_cmd_def get_s3server_service_status_def log_event_def tuple2_def

text \<open>
  Claim C7, as amended. When a step of \<open>alert_validation\<close> fails (the status check of
  the first or of the second service, the command that copies the screen log, or the
  command that extracts the alerts returns a result whose first element is false),
  \<open>alert_validation\<close> returns that result at once: the failed step is the last event of
  the trace, so nothing is executed after it and it is not executed again. A helper does
  recover from a missing prerequisite, though: when the package query of
  \<open>run_cmd_on_screen\<close> fails, the helper runs the install command and then goes on to
  run the command in a screen session.
\<close>

theorem alert_validation_stops_at_failure:
  fixes env :: ras_env and string_list :: "string list" and restart :: bool and w :: ras_world
  defines "cfg \<equiv> RAS_VAL env"
  defines "t0 \<equiv> trace w @ (if restart then [RestartPcs (sspl_resource_id cfg), Sleep (sleep_val cfg)] else [])"
  defines "sspl \<equiv> s3_service_status env t0 (sspl_service cfg)"
  defines "t1 \<equiv> t0 @ [ServiceStatus (sspl_service cfg)]"
  defines "rmq \<equiv> s3_service_status env t1 (rabitmq_service cfg)"
  defines "t2 \<equiv> t1 @ [ServiceStatus (rabitmq_service cfg), Sleep (sleep_val cfg)]"
  defines "copy_cmd \<equiv> COPY_FILE_CMD (common_commands env) (screen_log cfg) (alert_log_file cfg)"
  defines "copied \<equiv> node_execute_cmd env t2 copy_cmd ReadNbytes"
  defines "t3 \<equiv> t2 @ [Exec copy_cmd ReadNbytes, ReadFile (alert_log_file cfg) (temp_txt_file cfg)]"
  defines "extract_cmd \<equiv> EXTRACT_LOG_CMD (common_commands env) (alert_log_file cfg)
                            (hd string_list) (extracted_alert_file cfg)"
  defines "extracted \<equiv> node_execute_cmd env t3 extract_cmd ReadNbytes"
  defines "check_cmd \<equiv> ''rpm  -qa | grep screen''"
  shows "(\<not> fst sspl \<longrightarrow>
            alert_validation env string_list restart w = (Inr (tuple2 sspl), w\<lparr>trace := t1\<rparr>))
       \<and> (fst sspl \<and> \<not> fst rmq \<longrightarrow>
            alert_validation env string_list restart w =
              (Inr (tuple2 rmq), w\<lparr>trace := t1 @ [ServiceStatus (rabitmq_service cfg)]\<rparr>))
       \<and> (fst sspl \<and> fst rmq \<and> \<not> fst copied \<longrightarrow>
            alert_validation env string_list restart w =
              (Inr (tuple2 copied), w\<lparr>trace := t2 @ [Exec copy_cmd ReadNbytes]\<rparr>))
       \<and> (fst sspl \<and> fst rmq \<and> fst copied \<and> string_list \<noteq> [] \<and> \<not> fst extracted \<longrightarrow>
            alert_validation env string_list restart w =
              (Inr (tuple2 extracted), w\<lparr>trace := t3 @ [Exec extract_cmd ReadNbytes]\<rparr>))
       \<and> (\<not> fst (node_execute_cmd env (trace w) check_cmd ReadDefault) \<longrightarrow>
            trace (snd (run_cmd_on_screen env cmd w)) =
              trace w @ [Exec check_cmd ReadDefault,
                         Exec (INSTALL_SCREEN_CMD (common_commands env)) ReadNbytes,
                         Sleep 5,
                         Exec (SCREEN_CMD (common_commands env) cmd) ReadNbytes])"
proof -
  have a: "\<not> fst sspl \<longrightarrow>
            alert_validation env string_list restart w = (Inr (tuple2 sspl), w\<lparr>trace := t1\<rparr>)"
    unfolding assms alert_validation_def
    by (simp add: ras_io_defs Let_def)
  have b: "fst sspl \<and> \<not> fst rmq \<longrightarrow>
            alert_validation env string_list restart w =
              (Inr (tuple2 rmq), w\<lparr>trace := t1 @ [ServiceStatus (rabitmq_service cfg)]\<rparr>)"
    unfolding assms alert_validation_def
    by (simp add: ras_io_defs Let_def)
  have c: "fst sspl \<and> fst rmq \<and> \<not> fst copied \<longrightarrow>
            alert_validation env string_list restart w =
              (Inr (tuple2 copied), w\<lparr>trace := t2 @ [Exec copy_cmd ReadNbytes]\<rparr>)"
    unfolding assms alert_validation_def
    by (simp add: ras_io_defs Let_def)
  have d: "fst sspl \<and> fst rmq \<and> fst copied \<and> string_list \<noteq> [] \<and> \<not> fst extracted \<longrightarrow>
            alert_validation env string_list restart w =
              (Inr (tuple2 extracted), w\<lparr>trace := t3 @ [Exec extract_cmd ReadNbytes]\<rparr>)"
    unfolding assms alert_validation_def
    by (cases string_list) (simp_all add: ras_io_defs Let_def first_of_def)
  have e: "\<not> fst (node_execute_cmd env (trace w) check_cmd ReadDefault) \<longrightarrow>
            trace (snd (run_cmd_on_screen env cmd w)) =
              trace w @ [Exec check_cmd ReadDefault,
                         Exec (INSTALL_SCREEN_CMD (common_commands env)) ReadNbytes,
                         Sleep 5,
                         Exec (SCREEN_CMD (common_commands env) cmd) ReadNbytes]"
    unfolding assms run_cmd_on_screen_def install_screen_on_machine_def
    by (simp add: ras_io_defs Let_def)
  from a b c d e show ?thesis by blast
qed


text \<open>
  Claim C7 as stated fails: were no helper to fall back on an alternative action after a
  failed step, \<open>run_cmd_on_screen\<close> would never run the install command after its
  package query has failed. On a node that fails every command it does.
\<close>

theorem run_cmd_on_screen_recovers:
  "\<not> (\<forall>env cmd w.
         \<not> fst (node_execute_cmd env (trace w) ''rpm  -qa | grep screen'' ReadDefault) \<longrightarrow>
         Exec (INSTALL_SCREEN_CMD (common_commands env)) ReadNbytes
           \<notin> set (drop (length (trace w)) (trace (snd (run_cmd_on_screen env cmd w)))))"
proof
  assume h: "\<forall>env cmd w.
         \<not> fst (node_execute_cmd env (trace w) ''rpm  -qa | grep screen'' ReadDefault) \<longrightarrow>
         Exec (INSTALL_SCREEN_CMD (common_commands env)) ReadNbytes
           \<notin> set (drop (length (trace w)) (trace (snd (run_cmd_on_screen env cmd w))))"
  have "\<not> fst (node_execute_cmd failing_node (trace fresh_world) ''rpm  -qa | grep screen''
                 ReadDefault)"
    by (simp add: failing_node_def)
  with h have "Exec (INSTALL_SCREEN_CMD (common_commands failing_node)) ReadNbytes
           \<notin> set (drop (length (trace fresh_world))
                    (trace (snd (run_cmd_on_screen failing_node ''reader'' fresh_world))))"
    by blast
  then show False
    by (simp add: run_cmd_on_screen_def install_screen_on_machine_def ras_io_defs Let_def
        fresh_world_def failing_node_def)
qed

theorem alert_validation_stops_at_failure_witness:
  "alert_validation failing_node [''fan''] True fresh_world =
     (Inr (PTuple [PBool False, PStr ''inactive'']),
      \<lparr>trace = [RestartPcs ''sspl-ll'', Sleep 120, ServiceStatus ''sspl-ll''], temp_file = None\<rparr>)
   \<and> alert_validation broker_down_node [''fan''] False fresh_world =
     (Inr (PTuple [PBool False, PStr ''inactive'']),
      \<lparr>trace = [ServiceStatus ''sspl-ll'', ServiceStatus ''rabbitmq-server''], temp_file = None\<rparr>)
   \<and> alert_validation refusing_node [''fan''] False fresh_world =
     (Inr (PTuple [PBool False, PBytes ''denied'']),
      \<lparr>trace = [ServiceStatus ''sspl-ll'', ServiceStatus ''rabbitmq-server'', Sleep 120,
                Exec ''cp -f /root/screenlog.0 /root/alert.log'' ReadNbytes],
       temp_file = None\<rparr>)
   \<and> alert_validation extraction_fails_node [''fan''] False fresh_world =
     (Inr (PTuple [PBool False, PBytes ''grep: no match'']),
      \<lparr>trace = [ServiceStatus ''sspl-ll'', ServiceStatus ''rabbitmq-server'', Sleep 120,
                Exec ''cp -f /root/screenlog.0 /root/alert.log'' ReadNbytes,
                ReadFile ''/root/alert.log'' ''temp.txt'',
                Exec ''cat /root/alert.log | grep fan > /root/extracted_alert.log'' ReadNbytes],
       temp_file = None\<rparr>)
   \<and> trace (snd (run_cmd_on_screen failing_node ''reader'' fresh_world)) =
     [Exec ''rpm  -qa | grep screen'' ReadDefault, Exec ''yum -y install screen'' ReadNbytes,
      Sleep 5, Exec ''screen -d -m -L -S screen_RMQ reader'' ReadNbytes]"
proof -
  note envs = failing_node_def healthy_node_def broker_down_node_def refusing_node_def
    extraction_fails_node_def example_alert_cfg_def example_commands_def fresh_world_def tuple2_def
  have a: "alert_validation failing_node [''fan''] True fresh_world =
     (Inr (PTuple [PBool False, PStr ''inactive'']),
      \<lparr>trace = [RestartPcs ''sspl-ll'', Sleep 120, ServiceStatus ''sspl-ll''], temp_file = None\<rparr>)"
    using alert_validation_stops_at_failure
      [where env = failing_node and w = fresh_world and restart = True and string_list = "[''fan'']"]
    by (simp add: envs)
  have b: "alert_validation broker_down_node [''fan''] False fresh_world =
     (Inr (PTuple [PBool False, PStr ''inactive'']),
      \<lparr>trace = [ServiceStatus ''sspl-ll'', ServiceStatus ''rabbitmq-server''], temp_file = None\<rparr>)"
    using alert_validation_stops_at_failure
      [where env = broker_down_node and w = fresh_world and restart = False
         and string_list = "[''fan'']"]
    by (simp add: envs)
  have c: "alert_validation refusing_node [''fan''] False fresh_world =
     (Inr (PTuple [PBool False, PBytes ''denied'']),
      \<lparr>trace = [ServiceStatus ''sspl-ll'', ServiceStatus ''rabbitmq-server'', Sleep 120,
                Exec ''cp -f /root/screenlog.0 /root/alert.log'' ReadNbytes],
       temp_file = None\<rparr>)"
    using alert_validation_stops_at_failure
      [where env = refusing_node and w = fresh_world and restart = False
         and string_list = "[''fan'']"]
    by (simp add: envs)
  have d: "alert_validation extraction_fails_node [''fan''] False fresh_world =
     (Inr (PTuple [PBool False, PBytes ''grep: no match'']),
      \<lparr>trace = [ServiceStatus ''sspl-ll'', ServiceStatus ''rabbitmq-server'', Sleep 120,
                Exec ''cp -f /root/screenlog.0 /root/alert.log'' ReadNbytes,
                ReadFile ''/root/alert.log'' ''temp.txt'',
                Exec ''cat /root/alert.log | grep fan > /root/extracted_alert.log'' ReadNbytes],
       temp_file = None\<rparr>)"
    using alert_validation_stops_at_failure
      [where env = extraction_fails_node and w = fresh_world and restart = False
         and string_list = "[''fan'']"]
    by (simp add: envs)
  have e: "trace (snd (run_cmd_on_screen failing_node ''reader'' fresh_world)) =
     [Exec ''rpm  -qa | grep screen'' ReadDefault, Exec ''yum -y install screen'' ReadNbytes,
      Sleep 5, Exec ''screen -d -m -L -S screen_RMQ reader'' ReadNbytes]"
    using alert_validation_stops_at_failure
      [where env = failing_node and w = fresh_world and cmd = "''reader''"]
    by (simp add: envs)
  from a b c d e show ?thesis by blast
qed

subsection \<open>How a failed command is reported\<close>

text \<open>
  Claim C1, as amended. The helpers that hand back the result of their one command
  (\<open>truncate_file\<close>, \<open>cp_file\<close>, \<open>install_screen_on_machine\<close>, \<open>check_status_file\<close>,
  \<open>change_file_mode\<close>, \<open>get_cluster_id\<close>, \<open>encrypt_pwd\<close>, \<open>kv_put\<close>, \<open>kv_get\<close>,
  \<open>run_mdadm_cmd\<close>, \<open>generate_log_err_alert\<close>) surface a failed command as the tuple
  \<open>(False, raw output)\<close>, and so does \<open>create_support_bundle\<close> when its \<open>resp_lst\<close> is
  \<open>None\<close> or empty. \<open>cal_sel_space\<close> reports a failed command by returning the integer
  \<open>0\<close>, and \<open>get_fan_name\<close> by returning \<open>None\<close>.
\<close>

theorem command_failure_shapes:
  fixes env :: ras_env and w :: ras_world and benv :: bundle_env
    and bundle_name dest_dir host_ip :: string
  defines "c \<equiv> common_commands env"
  defines "run \<equiv> (\<lambda>cmd opt. node_execute_cmd env (trace w) cmd opt)"
  defines "failure \<equiv> (\<lambda>r. PTuple [PBool False, snd r])"
  defines "bundle \<equiv> run_remote_cmd benv (BUNDLE_CMD benv @ '' '' @ bundle_name @ '' '' @ dest_dir)
                       host_ip (uname benv) (passwd benv)"
  shows "(\<not> fst (run (EMPTY_FILE_CMD c file_path) ReadNbytes) \<longrightarrow>
            fst (truncate_file env file_path w) = failure (run (EMPTY_FILE_CMD c file_path) ReadNbytes))
       \<and> (\<not> fst (run (COPY_FILE_CMD c path backup_path) ReadNbytes) \<longrightarrow>
            fst (cp_file env path backup_path w) =
              failure (run (COPY_FILE_CMD c path backup_path) ReadNbytes))
       \<and> (\<not> fst (run (INSTALL_SCREEN_CMD c) ReadNbytes) \<longrightarrow>
            fst (install_screen_on_machine env w) = failure (run (INSTALL_SCREEN_CMD c) ReadNbytes))
       \<and> (\<not> fst (run (UPDATE_STAT_FILE_CMD c (SERVICE_STATUS_PATH c)) ReadNbytes) \<longrightarrow>
            fst (check_status_file env w) =
              failure (run (UPDATE_STAT_FILE_CMD c (SERVICE_STATUS_PATH c)) ReadNbytes))
       \<and> (\<not> fst (run (FILE_MODE_CHANGE_CMD c path) ReadNbytes) \<longrightarrow>
            fst (change_file_mode env path w) = failure (run (FILE_MODE_CHANGE_CMD c path) ReadNbytes))
       \<and> (\<not> fst (run (GET_CLUSTER_ID_CMD c) ReadNbytes) \<longrightarrow>
            fst (get_cluster_id env w) = failure (run (GET_CLUSTER_ID_CMD c) ReadNbytes))
       \<and> (\<not> fst (run (ENCRYPT_PASSWORD_CMD c password cluster_id) ReadNbytes) \<longrightarrow>
            fst (encrypt_pwd env password cluster_id w) =
              failure (run (ENCRYPT_PASSWORD_CMD c password cluster_id) ReadNbytes))
       \<and> (\<not> fst (run (CONSUL_PATH c @ '' kv put '' @ kv_path @ ''/'' @ field @ '' '' @ val)
                     ReadOneByte) \<longrightarrow>
            fst (kv_put env field val kv_path w) =
              failure (run (CONSUL_PATH c @ '' kv put '' @ kv_path @ ''/'' @ field @ '' '' @ val)
                         ReadOneByte))
       \<and> (\<not> fst (run (CONSUL_PATH c @ '' kv get '' @ kv_path @ ''/'' @ field) ReadNbytes) \<longrightarrow>
            fst (kv_get env field kv_path w) =
              failure (run (CONSUL_PATH c @ '' kv get '' @ kv_path @ ''/'' @ field) ReadNbytes))
       \<and> (\<not> fst (run (MDADM_CMD c (join_space arg_list)) ReadNbytes) \<longrightarrow>
            fst (run_mdadm_cmd env arg_list w) =
              failure (run (MDADM_CMD c (join_space arg_list)) ReadNbytes))
       \<and> (\<not> fst (run logger_alert_cmd ReadDefault) \<longrightarrow>
            fst (generate_log_err_alert env logger_alert_cmd w) =
              failure (run logger_alert_cmd ReadDefault))
       \<and> (\<not> fst bundle \<and> \<not> py_truthy resp_lst \<longrightarrow>
            fst (create_support_bundle benv bundle_name dest_dir host_ip resp_lst) =
              Inr (failure bundle))
       \<and> (\<not> fst (run (SEL_INFO_CMD c) ReadDefault) \<longrightarrow> fst (cal_sel_space env w) = Inr (PInt 0))
       \<and> (\<not> fst (run (IPMI_SDR_LIST_CMD c) ReadDefault) \<longrightarrow> fst (get_fan_name env w) = Inr PNone)"
  unfolding assms
  by (simp add: truncate_file_def cp_file_def install_screen_on_machine_def check_status_file_def
      change_file_mode_def get_cluster_id_def encrypt_pwd_def kv_put_def kv_get_def
      run_mdadm_cmd_def generate_log_err_alert_def create_support_bundle_def remote_execution_def
      cal_sel_space_def get_fan_name_def ras_io_defs Let_def)

text \<open>
  Claim C1 as stated fails for \<open>cal_sel_space\<close>: on a node that fails every command it
  does not return the tuple of \<open>False\<close> and the raw output.
\<close>

theorem cal_sel_space_failure_is_integer:
  "\<not> (\<forall>env w. \<not> fst (node_execute_cmd env (trace w) (SEL_INFO_CMD (common_commands env)) ReadDefault) \<longrightarrow>
         fst (cal_sel_space env w) =
           Inr (PTuple [PBool False,
                  snd (node_execute_cmd env (trace w) (SEL_INFO_CMD (common_commands env)) ReadDefault)]))"
proof
  assume h: "\<forall>env w. \<not> fst (node_execute_cmd env (trace w) (SEL_INFO_CMD (common_commands env)) ReadDefault) \<longrightarrow>
         fst (cal_sel_space env w) =
           Inr (PTuple [PBool False,
                  snd (node_execute_cmd env (trace w) (SEL_INFO_CMD (common_commands env)) ReadDefault)])"
  have "\<not> fst (node_execute_cmd failing_node (trace fresh_world)
                 (SEL_INFO_CMD (common_commands failing_node)) ReadDefault)"
    by (simp add: failing_node_def)
  with h have "fst (cal_sel_space failing_node fresh_world) =
           Inr (PTuple [PBool False,
                  snd (node_execute_cmd failing_node (trace fresh_world)
                         (SEL_INFO_CMD (common_commands failing_node)) ReadDefault)])"
    by blast
  then show False
    by (simp add: cal_sel_space_def ras_io_defs Let_def failing_node_def)
qed


theorem command_failure_shapes_witness:
  "fst (truncate_file failing_node ''/var/log/a.log'' fresh_world) =
     PTuple [PBool False, PBytes ''command not found'']
   \<and> fst (cp_file failing_node ''/etc/sspl.conf'' ''/root/sspl.bak'' fresh_world) =
     PTuple [PBool False, PBytes ''command not found'']
   \<and> fst (install_screen_on_machine failing_node fresh_world) =
     PTuple [PBool False, PBytes ''command not found'']
   \<and> fst (check_status_file failing_node fresh_world) =
     PTuple [PBool False, PBytes ''command not found'']
   \<and> fst (change_file_mode failing_node ''/root/reader.py'' fresh_world) =
     PTuple [PBool False, PBytes ''command not found'']
   \<and> fst (get_cluster_id failing_node fresh_world) =
     PTuple [PBool False, PBytes ''command not found'']
   \<and> fst (encrypt_pwd failing_node ''pw'' ''c1'' fresh_world) =
     PTuple [PBool False, PBytes ''command not found'']
   \<and> fst (kv_put failing_node ''user'' ''admin'' ''sspl/config'' fresh_world) =
     PTuple [PBool False, PBytes ''command not found'']
   \<and> fst (kv_get failing_node ''user'' ''sspl/config'' fresh_world) =
     PTuple [PBool False, PBytes ''command not found'']
   \<and> fst (run_mdadm_cmd failing_node [''--detail'', ''/dev/md0''] fresh_world) =
     PTuple [PBool False, PBytes ''command not found'']
   \<and> fst (generate_log_err_alert failing_node ''logger -p err test'' fresh_world) =
     PTuple [PBool False, PBytes ''command not found'']
   \<and> fst (create_support_bundle (example_bundle_env False) ''bundle_0'' ''/tmp/bundles''
            ''10.0.0.5'' PNone) =
     Inr (PTuple [PBool False, PStr ''No such file or directory''])
   \<and> fst (cal_sel_space failing_node fresh_world) = Inr (PInt 0)
   \<and> fst (get_fan_name failing_node fresh_world) = Inr PNone"
  using command_failure_shapes
    [where env = failing_node and w = fresh_world and benv = "example_bundle_env False"
       and file_path = "''/var/log/a.log''" and path = "''/etc/sspl.conf''"
       and backup_path = "''/root/sspl.bak''" and resp_lst = PNone
       and bundle_name = "''bundle_0''" and dest_dir = "''/tmp/bundles''"
       and host_ip = "''10.0.0.5''"]
    command_failure_shapes
    [where env = failing_node and w = fresh_world and path = "''/root/reader.py''"
       and password = "''pw''" and cluster_id = "''c1''" and field = "''user''"
       and val = "''admin''" and kv_path = "''sspl/config''"
       and arg_list = "[''--detail'', ''/dev/md0'']"
       and logger_alert_cmd = "''logger -p err test''"]
  by (simp add: failing_node_def example_bundle_env_def py_truthy_def)

subsection \<open>The shared result list of create_support_bundle\<close>

lemma create_support_bundle_list_unchanged:
  "snd (create_support_bundle env bundle_name dest_dir host_ip resp_lst) = resp_lst"
  by (simp add: create_support_bundle_def Let_def)

text \<open>
  Claim C4 at a failing input. Called with an empty list and a command that succeeds,
  \<open>create_support_bundle\<close> returns \<open>(True, output)\<close> and leaves the list empty, so the
  driving test's \<open>all\<close> over the list holds with nothing in it. Called with a list that
  already has an entry, it raises the \<open>TypeError\<close> of \<open>append\<close> with two arguments, and
  the list is unchanged again.
\<close>

theorem create_support_bundle_never_appends:
  "create_support_bundle (example_bundle_env True) ''bundle_0'' ''/tmp/bundles'' ''10.0.0.5''
     (PList []) =
     (Inr (PTuple [PBool True, PStr ''S3 support bundle generated successfully !!!'']), PList [])
   \<and> all_flags []
   \<and> create_support_bundle (example_bundle_env True) ''bundle_1'' ''/tmp/bundles'' ''10.0.0.5''
       (PList [PTuple [PBool True, PStr ''earlier'']]) =
     (Inl (Exn TypeError [PStr ''append() takes exactly one argument (2 given)'']),
      PList [PTuple [PBool True, PStr ''earlier'']])"
  by (simp add: create_support_bundle_def remote_execution_def example_bundle_env_def
      py_truthy_def py_str_def append_two_def all_flags_def Let_def)

subsection \<open>The example environment\<close>

lemma example_env_sel:
  "config (example_env srv) = example_config"
  "const (example_env srv) = example_const"
  "headers_for (example_env srv) login = PDict [(''Authorization'', PStr ''Bearer token'')]"
  "server (example_env srv) = srv"
  "clock (example_env srv) n = 7"
  "update_csm_config_for_user (example_env srv) key name password = None"
  "verify_json_response (example_env srv) actual expected =
     (py_getitem actual ''account_name'' = py_getitem expected ''account_name'')"
  "ct_args (example_env srv) code msg = [PStr ''CTError'', msg]"
  "repr (example_env srv) v = []"
  by (simp_all add: example_env_def)

lemma show_int_7: "show_int 7 = ''7''"
  by (simp add: show_int_def show_nat.simps) code_simp

subsection \<open>Exceptions raised during a REST call\<close>

lemma raise_CTException_args:
  "raise_CTException env code (Exn c (a # rest)) = Exn (CTException code a) (ct_args env code a)"
  by (simp add: raise_CTException_def)

lemma list_all_wraps_exception:
  "server env (sent s) \<lparr>verb = ''get'', endpoint = s3accounts_endpoint (config env), data = None,
                        headers = headers_for env login_as\<rparr> = Inl (Exn c (a # rest)) \<Longrightarrow>
   fst (list_all_created_s3account env login_as s) =
     Inl (Exn (CTException CSM_REST_AUTHENTICATION_ERROR a)
            (ct_args env CSM_REST_AUTHENTICATION_ERROR a))"
  by (simp add: list_all_created_s3account_def except_BaseException_def rest_call_def
      raise_CTException_def)

text \<open>
  Claim C2 at a failing input. When the REST call is interrupted by an exception that
  carries no arguments, each of the five wrappers raises the \<open>IndexError\<close> of
  \<open>error.args[0]\<close>, which is no \<open>CTException\<close>.
\<close>

theorem wrappers_lose_argless_exception:
  "fst (list_all_created_s3account (example_env interrupted_server) None fresh_state) =
     Inl (Exn IndexError [PStr ''tuple index out of range''])
   \<and> fst (delete_s3_account_user (example_env interrupted_server) (PStr ''test7'') None fresh_state) =
     Inl (Exn IndexError [PStr ''tuple index out of range''])
   \<and> fst (edit_s3_account_user (example_env interrupted_server) (PStr ''test7'') ''valid'' None
            fresh_state) =
     Inl (Exn IndexError [PStr ''tuple index out of range''])
   \<and> fst (edit_s3_account_user_invalid_password (example_env interrupted_server) (PStr ''test7'')
            (PDict [(''password'', PStr ''x'')]) None fresh_state) =
     Inl (Exn IndexError [PStr ''tuple index out of range''])
   \<and> fst (create_s3_account (example_env interrupted_server) ''valid'' False None fresh_state) =
     Inl (Exn IndexError [PStr ''tuple index out of range''])
   \<and> \<not> is_CTException (Exn IndexError [PStr ''tuple index out of range''])
         CSM_REST_AUTHENTICATION_ERROR"
  by (simp add: list_all_created_s3account_def delete_s3_account_user_def edit_s3_account_user_def
      edit_s3_account_user_invalid_password_def create_s3_account.simps
      create_payload_for_new_s3_account.simps edit_user_payload_def
      except_BaseException_def except_Exception_def rest_call_def raise_CTException_def
      example_env_def interrupted_server_def Let_def)

subsection \<open>The key check of the verification routines\<close>

lemma create_valid_keyless:
  "create_s3_account (example_env keyless_server) ''valid'' save None fresh_state =
     (Inr \<lparr>status_code = 200, json = Inr account_doc\<rparr>,
      \<lparr>recently_created_s3_account_user =
          PDict [(''account_name'', PStr ''test7''), (''account_email'', PStr ''test7@seagate.com''),
                 (''password'', PStr ''Seagate@1'')],
        sent = [\<lparr>verb = ''post'', endpoint = ''/api/v1/s3_accounts'',
                 data = Some (PDict [(''account_name'', PStr ''test7''),
                                     (''account_email'', PStr ''test7@seagate.com''),
                                     (''password'', PStr ''Seagate@1'')]),
                 headers = PDict [(''Authorization'', PStr ''Bearer token'')]\<rparr>],
        ticks = 2\<rparr>)"
  by (simp add: create_s3_account.simps create_payload_for_new_s3_account.simps
      except_BaseException_def except_Exception_def rest_call_def example_env_sel
      example_config_def keyless_server_def fresh_state_def show_int_7 py_getitem_def Let_def)

text \<open>
  Claim C3 at a failing input. The server answers 200 with a document that has an access
  key and no secret key; both verification routines return \<open>True\<close>.
\<close>

theorem verification_accepts_missing_secret_key:
  "py_in ''secret_key'' account_doc = Inr False
   \<and> fst (create_and_verify_s3account (example_env keyless_server) ''valid'' 200 fresh_state) =
       Inr True
   \<and> fst (edit_and_verify_s3_account_user (example_env keyless_server) ''valid'' fresh_state) =
       Inr True"
proof -
  have a: "py_in ''secret_key'' account_doc = Inr False"
    by (simp add: py_in_def account_doc_def)
  have b: "fst (create_and_verify_s3account (example_env keyless_server) ''valid'' 200 fresh_state) =
       Inr True"
    by (simp add: create_and_verify_s3account_def create_valid_keyless self_user_type_def
        except_Exception_def response_ok_def both_keys_absent_def py_in_def py_getitem_def
        py_iter_def account_doc_def list_all_created_s3account_def except_BaseException_def
        rest_call_def example_env_sel example_const_def example_config_def keyless_server_def)
  have c: "fst (edit_and_verify_s3_account_user (example_env keyless_server) ''valid'' fresh_state) =
       Inr True"
    by (simp add: edit_and_verify_s3_account_user_def create_valid_keyless
        except_Exception_def response_ok_def both_keys_absent_def py_in_def py_getitem_def
        account_doc_def edit_s3_account_user_def edit_user_payload_def user_endpoint_def
        py_str_def except_BaseException_def
        rest_call_def example_env_sel example_const_def example_config_def keyless_server_def)
  from a b c show ?thesis by simp
qed

theorem verification_accepts_missing_secret_key_witness:
  "fst (edit_and_verify_s3_account_user (example_env keyless_server) ''valid'' fresh_state) =
     Inr True"
  using verification_accepts_missing_secret_key by (rule conjunct2 [THEN conjunct2])

subsection \<open>Verbs and endpoints\<close>












subsection \<open>Payloads for editing\<close>

text \<open>
  Claim C6. For each of the five recognised payload types \<open>edit_user_payload\<close> returns a
  dictionary whose keys lie in \<open>{password, reset_access_key}\<close>; for every other payload
  type it returns \<open>None\<close> and raises nothing.
\<close>

theorem edit_user_payload_keys:
  "(payload_type \<in> {''valid'', ''unchanged_access'', ''only_reset_access_key'', ''only_password'',
                     ''no_payload''} \<longrightarrow>
      (\<exists>d. edit_user_payload env payload_type s = (Inr (PDict d), s)
           \<and> set (map fst d) \<subseteq> {''password'', ''reset_access_key''}))
   \<and> (payload_type \<notin> {''valid'', ''unchanged_access'', ''only_reset_access_key'', ''only_password'',
                        ''no_payload''} \<longrightarrow>
      edit_user_payload env payload_type s = (Inr PNone, s))"
  by (auto simp add: edit_user_payload_def except_Exception_def Let_def)

theorem edit_user_payload_keys_witness:
  "(\<exists>d. edit_user_payload (example_env empty_server) ''only_password'' fresh_state =
           (Inr (PDict d), fresh_state)
        \<and> set (map fst d) \<subseteq> {''password'', ''reset_access_key''})
   \<and> edit_user_payload (example_env empty_server) ''reset_everything'' fresh_state =
       (Inr PNone, fresh_state)"
  using edit_user_payload_keys [of "''only_password''" "example_env empty_server" fresh_state]
    edit_user_payload_keys [of "''reset_everything''" "example_env empty_server" fresh_state]
  by simp

subsection \<open>Listing without accounts\<close>

text \<open>
  Claim C8. When the listing comes back with status 200 and a document that maps
  \<open>s3_accounts\<close> to an empty list and has no \<open>iam_users\<close> entry,
  \<open>verify_list_s3account_details\<close> returns no boolean, whatever \<open>expect_no_user\<close> is: the
  lookup of \<open>iam_users\<close> made for the log message fails, and the routine raises
  \<open>CTException\<close> with the code \<open>CSM_REST_VERIFICATION_FAILED\<close>.
\<close>

theorem verify_list_empty_accounts_raises:
  assumes listed: "fst (list_all_created_s3account env None s) = Inr resp"
    and status: "status_code resp = 200" "SUCCESS_STATUS (const env) = 200"
    and key: "S3_ACCOUNTS (const env) = ''s3_accounts''"
    and body: "json resp = Inr (PDict d)"
    and accounts: "map_of d ''s3_accounts'' = Some (PList [])"
    and no_iam: "map_of d ''iam_users'' = None"
  shows "fst (verify_list_s3account_details env expect_no_user s) =
           Inl (Exn (CTException CSM_REST_VERIFICATION_FAILED (PStr ''iam_users''))
                  (ct_args env CSM_REST_VERIFICATION_FAILED (PStr ''iam_users'')))"
proof -
  obtain s1 where l: "list_all_created_s3account env None s = (Inr resp, s1)"
    using listed by (cases "list_all_created_s3account env None s") simp
  have present: "py_in ''s3_accounts'' (PDict d) = Inr True"
    using accounts by (auto simp: py_in_def dest: map_of_SomeD intro: rev_image_eqI)
  show ?thesis
    by (simp add: verify_list_s3account_details_def l status key body present response_ok_def
        py_getitem_def accounts no_iam py_len_def except_Exception_def raise_CTException_def)
qed

theorem verify_list_empty_accounts_raises_witness:
  "fst (verify_list_s3account_details (example_env empty_server) False fresh_state) =
     Inl (Exn (CTException CSM_REST_VERIFICATION_FAILED (PStr ''iam_users''))
            [PStr ''CTError'', PStr ''iam_users''])
   \<and> fst (verify_list_s3account_details (example_env empty_server) True fresh_state) =
     Inl (Exn (CTException CSM_REST_VERIFICATION_FAILED (PStr ''iam_users''))
            [PStr ''CTError'', PStr ''iam_users''])"
proof -
  let ?resp = "\<lparr>status_code = 200, json = Inr (PDict [(''s3_accounts'', PList [])])\<rparr>"
  have listed: "fst (list_all_created_s3account (example_env empty_server) None fresh_state) = Inr ?resp"
    by (simp add: list_all_created_s3account_def except_BaseException_def rest_call_def
        example_env_def empty_server_def)
  have k: "SUCCESS_STATUS (const (example_env empty_server)) = 200"
    "S3_ACCOUNTS (const (example_env empty_server)) = ''s3_accounts''"
    by (simp_all add: example_env_def example_const_def)
  have a: "\<And>b. fst (verify_list_s3account_details (example_env empty_server) b fresh_state) =
     Inl (Exn (CTException CSM_REST_VERIFICATION_FAILED (PStr ''iam_users''))
            [PStr ''CTError'', PStr ''iam_users''])"
    using verify_list_empty_accounts_raises
      [OF listed _ k, of "[(''s3_accounts'', PList [])]"]
    by (simp add: example_env_def)
  show ?thesis using a by simp
qed

subsection \<open>Unknown user types\<close>






end
